theory Spec2Isabelle
  imports Main "HOL-Library.AList" "HOL-Library.Word"
begin

section \<open>Values shared by all components\<close>

subsection \<open>JSON values\<close>

text \<open>
  Payloads arrive as parsed JSON (\<^verbatim>\<open>req.body\<close> after \<^verbatim>\<open>express.json()\<close>, the items of
  the Marketplace B response). An object is the list of its properties in property order;
  a parsed object has no two properties of the same name. \<open>JNum n\<close> is the JavaScript number
  whose value is the integer \<open>n\<close>; numbers with a fractional part are not part of this model,
  and neither is the exponent notation in which JavaScript prints integers from \<open>10^21\<close> on.
\<close>

datatype json =
    JNull
  | JBool bool
  | JNum int
  | JStr string
  | JArr "json list"
  | JObj "(string \<times> json) list"

subsection \<open>Errors\<close>

text \<open>
  The source throws plain \<^verbatim>\<open>Error\<close> objects; the model names them by where they come from.
  \<^item> \<open>BadPayload\<close>: \<^verbatim>\<open>Invalid Marketplace A/B payload\<close>, thrown by an adapter's \<^verbatim>\<open>transform\<close>;
  \<^item> \<open>RangeError\<close>: thrown by \<^verbatim>\<open>crypto.timingSafeEqual\<close> on buffers of different length;
  \<^item> \<open>QueueUnavailable\<close>: thrown by the queue client when a job cannot be added or updated;
  \<^item> \<open>LockUnavailable\<close>: \<^verbatim>\<open>Unable to acquire lock for product ...\<close>, thrown by \<^verbatim>\<open>acquireLock\<close>;
  \<^item> \<open>TransientStorage\<close>: connection, serialization and deadlock failures of the database;
  \<^item> \<open>PermanentStorage\<close>: a constraint of the schema is violated;
  \<^item> \<open>UpstreamUnavailable\<close>: the HTTP request to Marketplace B fails.
\<close>

datatype error =
    BadPayload
  | RangeError
  | QueueUnavailable
  | LockUnavailable
  | TransientStorage
  | PermanentStorage
  | UpstreamUnavailable

subsection \<open>The internal inventory format\<close>

datatype source = marketplace_a | marketplace_b

fun source_str :: "source \<Rightarrow> string" where
  "source_str marketplace_a = ''marketplace_a''"
| "source_str marketplace_b = ''marketplace_b''"

record InternalInventory =
  productId :: string
  quantity :: int
  source :: source
  warehouseId :: "string option"
  updatedAt :: string
  metadata :: "(string \<times> json) list option"

section \<open>Repository: \<^verbatim>\<open>InventoryRepository.upsert\<close>\<close>

text \<open>
  The two tables of \<^verbatim>\<open>initDatabase\<close>. \<open>row_created_at\<close> and \<open>changed_at\<close> hold the
  database's \<^verbatim>\<open>CURRENT_TIMESTAMP\<close>; nullable columns are options.
\<close>

record InventoryRecord =
  row_id :: nat
  row_product_id :: string
  row_quantity :: int
  row_source :: string
  row_warehouse_id :: "string option"
  row_updated_at :: string
  row_created_at :: nat
  row_metadata :: "(string \<times> json) list option"

record AuditRow =
  audit_id :: nat
  audit_product_id :: string
  old_quantity :: "int option"
  new_quantity :: "int option"
  audit_source :: string
  changed_at :: nat
  audit_metadata :: "(string \<times> json) list"

record database =
  inventory :: "InventoryRecord list"
  inventory_audit :: "AuditRow list"
  inventory_id_seq :: nat
  inventory_audit_id_seq :: nat

definition empty_database :: database where
  "empty_database =
     \<lparr>inventory = [], inventory_audit = [], inventory_id_seq = 0, inventory_audit_id_seq = 0\<rparr>"

text \<open>
  What the database contributes to one transaction: \<open>db_fault\<close> is an error it raises on its
  own account (connection lost, deadlock, a value it cannot store), \<open>db_now\<close> its clock.
\<close>

record db_env =
  db_fault :: "error option"
  db_now :: nat

text \<open>
  The constraints of \<^verbatim>\<open>CREATE TABLE inventory\<close> that the values of an upsert can violate:
  \<^verbatim>\<open>CHECK (quantity >= 0)\<close>, the range of \<^verbatim>\<open>INTEGER\<close>, and the lengths of the
  \<^verbatim>\<open>VARCHAR(255)\<close> columns.
\<close>

definition violates_constraint :: "InternalInventory \<Rightarrow> bool" where
  "violates_constraint item \<longleftrightarrow>
     quantity item < 0 \<or> quantity item > 2147483647 \<or> length (productId item) > 255 \<or>
     (case warehouseId item of None \<Rightarrow> False | Some w \<Rightarrow> length w > 255)"

definition same_key :: "InternalInventory \<Rightarrow> InventoryRecord \<Rightarrow> bool" where
  "same_key item r \<longleftrightarrow>
     row_product_id r = productId item \<and> row_source r = source_str (source item)"

text \<open>\<^verbatim>\<open>x || null\<close> on a number and on a string: \<open>0\<close> and the empty string are falsy.\<close>

definition number_or_null :: "int option \<Rightarrow> int option" where
  "number_or_null x = (case x of None \<Rightarrow> None | Some n \<Rightarrow> if n = 0 then None else Some n)"

definition string_or_null :: "string option \<Rightarrow> string option" where
  "string_or_null x = (case x of None \<Rightarrow> None | Some s \<Rightarrow> if s = [] then None else Some s)"

text \<open>
  \<^verbatim>\<open>{ ...inventory.metadata, warehouse_id: inventory.warehouseId }\<close>, as it is stored: a
  property whose value is \<^verbatim>\<open>undefined\<close> is left out when the object is serialised.
\<close>

definition audit_metadata_of :: "InternalInventory \<Rightarrow> (string \<times> json) list" where
  "audit_metadata_of item =
     (let md = (case metadata item of None \<Rightarrow> [] | Some m \<Rightarrow> m)
      in case warehouseId item of
           None \<Rightarrow> AList.delete ''warehouse_id'' md
         | Some w \<Rightarrow> AList.update ''warehouse_id'' (JStr w) md)"

definition updated_row :: "InternalInventory \<Rightarrow> InventoryRecord \<Rightarrow> InventoryRecord" where
  "updated_row item r =
     r\<lparr>row_quantity := quantity item,
       row_warehouse_id := string_or_null (warehouseId item),
       row_updated_at := updatedAt item,
       row_metadata := metadata item\<rparr>"

definition inserted_row :: "db_env \<Rightarrow> nat \<Rightarrow> InternalInventory \<Rightarrow> InventoryRecord" where
  "inserted_row env i item =
     \<lparr>row_id = i,
      row_product_id = productId item,
      row_quantity = quantity item,
      row_source = source_str (source item),
      row_warehouse_id = string_or_null (warehouseId item),
      row_updated_at = updatedAt item,
      row_created_at = db_now env,
      row_metadata = metadata item\<rparr>"

text \<open>
  \<^verbatim>\<open>upsert\<close>: one transaction. \<^verbatim>\<open>SELECT ... FOR UPDATE\<close> reads the old row,
  \<^verbatim>\<open>INSERT ... ON CONFLICT (product_id, source) DO UPDATE ... RETURNING *\<close> writes the row
  and returns it, \<^verbatim>\<open>INSERT INTO inventory_audit\<close> appends the audit row, \<^verbatim>\<open>COMMIT\<close>.
  On any error the \<^verbatim>\<open>catch\<close> block rolls back and rethrows: the database is unchanged.
  The insert draws a value of the \<^verbatim>\<open>SERIAL\<close> sequence also when it ends as an update.
\<close>

definition upsert ::
  "db_env \<Rightarrow> InternalInventory \<Rightarrow> database \<Rightarrow> (error + InventoryRecord) \<times> database" where
  "upsert env item db =
     (case db_fault env of
        Some e \<Rightarrow> (Inl e, db)
      | None \<Rightarrow>
          let oldRecord = filter (same_key item) (inventory db);
              oldQuantity =
                number_or_null (case oldRecord of [] \<Rightarrow> None | r # _ \<Rightarrow> Some (row_quantity r))
          in if violates_constraint item then (Inl PermanentStorage, db)
             else
               let i = Suc (inventory_id_seq db);
                   result = (case oldRecord of
                               [] \<Rightarrow> inserted_row env i item
                             | r # _ \<Rightarrow> updated_row item r);
                   rows = (case oldRecord of
                             [] \<Rightarrow> inventory db @ [result]
                           | _ # _ \<Rightarrow>
                               map (\<lambda>r. if same_key item r then updated_row item r else r)
                                 (inventory db));
                   j = Suc (inventory_audit_id_seq db);
                   audit =
                     \<lparr>audit_id = j,
                      audit_product_id = productId item,
                      old_quantity = oldQuantity,
                      new_quantity = Some (quantity item),
                      audit_source = source_str (source item),
                      changed_at = db_now env,
                      audit_metadata = audit_metadata_of item\<rparr>
               in (Inr result,
                   \<lparr>inventory = rows,
                    inventory_audit = inventory_audit db @ [audit],
                    inventory_id_seq = i,
                    inventory_audit_id_seq = j\<rparr>))"

text \<open>I1, audit coverage: every inventory row has an audit row of its key and quantity.\<close>

definition covers :: "InventoryRecord \<Rightarrow> AuditRow \<Rightarrow> bool" where
  "covers r a \<longleftrightarrow>
     audit_product_id a = row_product_id r \<and> audit_source a = row_source r \<and>
     new_quantity a = Some (row_quantity r)"

definition audit_coverage :: "database \<Rightarrow> bool" where
  "audit_coverage db \<longleftrightarrow>
     list_all (\<lambda>r. list_ex (covers r) (inventory_audit db)) (inventory db)"

text \<open>The states the repository can reach from the empty tables, by upserts that succeed or fail.\<close>

fun run_upserts :: "(db_env \<times> InternalInventory) list \<Rightarrow> database \<Rightarrow> database" where
  "run_upserts [] db = db"
| "run_upserts ((env, item) # ops) db = run_upserts ops (snd (upsert env item db))"

section \<open>Printing\<close>

subsection \<open>Numbers and strings as JavaScript prints them\<close>

definition digit_char :: "nat \<Rightarrow> char" where
  "digit_char d = ''0123456789abcdef'' ! (d mod 16)"

function show_nat :: "nat \<Rightarrow> string" where
  "show_nat n = (if n < 10 then [digit_char n] else show_nat (n div 10) @ [digit_char (n mod 10)])"
  by pat_completeness auto
termination
  by (relation "measure id") auto

declare show_nat.simps [simp del]

definition show_int :: "int \<Rightarrow> string" where
  "show_int i = (if i < 0 then CHR ''-'' # show_nat (nat (- i)) else show_nat (nat i))"

function pad_left :: "nat \<Rightarrow> string \<Rightarrow> string" where
  "pad_left w s = (if length s < w then pad_left w (CHR ''0'' # s) else s)"
  by pat_completeness auto
termination
  by (relation "measure (\<lambda>(w, s). w - length s)") auto

declare pad_left.simps [simp del]

fun intersperse_comma :: "string list \<Rightarrow> string" where
  "intersperse_comma [] = []"
| "intersperse_comma [s] = s"
| "intersperse_comma (s # t # ss) = s @ '','' @ intersperse_comma (t # ss)"

definition escape_char :: "char \<Rightarrow> string" where
  "escape_char c =
     (if c = CHR ''\"'' then [CHR 0x5C, CHR ''\"'']
      else if c = CHR 0x5C then [CHR 0x5C, CHR 0x5C]
      else if c = CHR 0x08 then [CHR 0x5C, CHR ''b'']
      else if c = CHR 0x0C then [CHR 0x5C, CHR ''f'']
      else if c = CHR 0x0A then [CHR 0x5C, CHR ''n'']
      else if c = CHR 0x0D then [CHR 0x5C, CHR ''r'']
      else if c = CHR 0x09 then [CHR 0x5C, CHR ''t'']
      else if of_char c < (32::nat)
        then [CHR 0x5C, CHR ''u'', CHR ''0'', CHR ''0'',
              digit_char (of_char c div 16), digit_char (of_char c mod 16)]
      else [c])"

definition quote :: "string \<Rightarrow> string" where
  "quote s = CHR ''\"'' # concat (map escape_char s) @ [CHR ''\"'']"

fun JSON_stringify :: "json \<Rightarrow> string" where
  "JSON_stringify JNull = ''null''"
| "JSON_stringify (JBool b) = (if b then ''true'' else ''false'')"
| "JSON_stringify (JNum n) = show_int n"
| "JSON_stringify (JStr s) = quote s"
| "JSON_stringify (JArr vs) = ''['' @ intersperse_comma (map JSON_stringify vs) @ '']''"
| "JSON_stringify (JObj kvs) =
     ''{'' @ intersperse_comma (map (\<lambda>kv. quote (fst kv) @ '':'' @ JSON_stringify (snd kv)) kvs) @ ''}''"

subsection \<open>\<^verbatim>\<open>new Date(ms).toISOString()\<close>\<close>

text \<open>
  The civil date of a day number (days since 1970-01-01, proleptic Gregorian calendar),
  computed by eras of 400 years that start on 1 March: \<open>era\<close> and \<open>day_of_era\<close> of the
  day number shifted to 0000-03-01, then year, day and month within the era.
\<close>

definition era :: "int \<Rightarrow> int" where
  "era z = z div 146097"

definition day_of_era :: "int \<Rightarrow> int" where
  "day_of_era z = z - era z * 146097"

definition year_of_era :: "int \<Rightarrow> int" where
  "year_of_era doe = (doe - doe div 1460 + doe div 36524 - doe div 146096) div 365"

definition day_of_year :: "int \<Rightarrow> int" where
  "day_of_year doe =
     doe - (365 * year_of_era doe + year_of_era doe div 4 - year_of_era doe div 100)"

definition month_index :: "int \<Rightarrow> int" where
  "month_index doe = (5 * day_of_year doe + 2) div 153"

definition civil_day :: "int \<Rightarrow> int" where
  "civil_day z = day_of_year (day_of_era z) - (153 * month_index (day_of_era z) + 2) div 5 + 1"

definition civil_month :: "int \<Rightarrow> int" where
  "civil_month z =
     (if month_index (day_of_era z) < 10 then month_index (day_of_era z) + 3
      else month_index (day_of_era z) - 9)"

definition civil_year :: "int \<Rightarrow> int" where
  "civil_year z =
     year_of_era (day_of_era z) + era z * 400 + (if civil_month z \<le> 2 then 1 else 0)"

definition civil_from_days :: "int \<Rightarrow> int \<times> int \<times> int" where
  "civil_from_days d =
     (civil_year (d + 719468), civil_month (d + 719468), civil_day (d + 719468))"

text \<open>
  The format of \<^verbatim>\<open>toISOString\<close>: \<^verbatim>\<open>YYYY-MM-DDTHH:mm:ss.sssZ\<close>, with a sign and six digits
  for a year outside 0 to 9999. An instant further than 8.64e15 ms from the epoch is no
  valid date: \<^verbatim>\<open>toISOString\<close> throws a \<^verbatim>\<open>RangeError\<close> (here \<open>None\<close>).
\<close>

definition iso_year :: "int \<Rightarrow> string" where
  "iso_year y =
     (if 0 \<le> y \<and> y \<le> 9999 then pad_left 4 (show_nat (nat y))
      else (if y < 0 then ''-'' else ''+'') @ pad_left 6 (show_nat (nat \<bar>y\<bar>)))"

fun iso_date :: "int \<times> int \<times> int \<Rightarrow> string" where
  "iso_date (y, m, d) =
     iso_year y @ ''-'' @ pad_left 2 (show_nat (nat m)) @ ''-'' @ pad_left 2 (show_nat (nat d))"

definition iso_time :: "int \<Rightarrow> string" where
  "iso_time ms =
     pad_left 2 (show_nat (nat (ms div 3600000))) @ '':'' @
     pad_left 2 (show_nat (nat (ms div 60000 mod 60))) @ '':'' @
     pad_left 2 (show_nat (nat (ms div 1000 mod 60))) @ ''.'' @
     pad_left 3 (show_nat (nat (ms mod 1000)))"

definition Date_toISOString :: "int \<Rightarrow> string option" where
  "Date_toISOString t =
     (if \<bar>t\<bar> > 8640000000000000 then None
      else Some (iso_date (civil_from_days (t div 86400000)) @ ''T'' @
                 iso_time (t mod 86400000) @ ''Z''))"

section \<open>Adapters\<close>

subsection \<open>The payload schemas (zod)\<close>

text \<open>
  \<^verbatim>\<open>z.object({...}).parse\<close>: the payload must be an object; every listed key is checked and
  unknown keys are dropped. \<^verbatim>\<open>z.string()\<close> and \<^verbatim>\<open>z.number().int()\<close> need a value of that type;
  \<^verbatim>\<open>.optional()\<close> accepts a missing key and nothing else of another type (not \<^verbatim>\<open>null\<close>).
  The result of a check is \<open>None\<close> when zod rejects the value.
\<close>

definition z_string :: "json option \<Rightarrow> string option" where
  "z_string v = (case v of Some (JStr s) \<Rightarrow> Some s | _ \<Rightarrow> None)"

definition z_number_int :: "json option \<Rightarrow> int option" where
  "z_number_int v = (case v of Some (JNum n) \<Rightarrow> Some n | _ \<Rightarrow> None)"

definition z_number :: "json option \<Rightarrow> int option" where
  "z_number v = (case v of Some (JNum n) \<Rightarrow> Some n | _ \<Rightarrow> None)"

definition z_string_optional :: "json option \<Rightarrow> string option option" where
  "z_string_optional v =
     (case v of None \<Rightarrow> Some None | Some (JStr s) \<Rightarrow> Some (Some s) | _ \<Rightarrow> None)"

definition z_record_optional :: "json option \<Rightarrow> (string \<times> json) list option option" where
  "z_record_optional v =
     (case v of None \<Rightarrow> Some None | Some (JObj kvs) \<Rightarrow> Some (Some kvs) | _ \<Rightarrow> None)"

record MarketplaceAPayload =
  product_code :: string
  available_stock :: int
  timestamp :: string
  warehouse :: "string option"
  payload_metadata :: "(string \<times> json) list option"

record MarketplaceBPayload =
  sku :: string
  qty :: int
  location_id :: "string option"
  last_modified :: int
  additional_info :: "(string \<times> json) list option"

definition MarketplaceAPayloadSchema :: "json \<Rightarrow> MarketplaceAPayload option" where
  "MarketplaceAPayloadSchema payload =
     (case payload of
        JObj kvs \<Rightarrow>
          (case (z_string (map_of kvs ''product_code''),
                 z_number_int (map_of kvs ''available_stock''),
                 z_string (map_of kvs ''timestamp''),
                 z_string_optional (map_of kvs ''warehouse''),
                 z_record_optional (map_of kvs ''metadata'')) of
             (Some pc, Some st, Some ts, Some wh, Some md) \<Rightarrow>
               Some \<lparr>product_code = pc, available_stock = st, timestamp = ts,
                     warehouse = wh, payload_metadata = md\<rparr>
           | _ \<Rightarrow> None)
      | _ \<Rightarrow> None)"

definition MarketplaceBPayloadSchema :: "json \<Rightarrow> MarketplaceBPayload option" where
  "MarketplaceBPayloadSchema payload =
     (case payload of
        JObj kvs \<Rightarrow>
          (case (z_string (map_of kvs ''sku''),
                 z_number_int (map_of kvs ''qty''),
                 z_string_optional (map_of kvs ''location_id''),
                 z_number (map_of kvs ''last_modified''),
                 z_record_optional (map_of kvs ''additional_info'')) of
             (Some s, Some q, Some loc, Some lm, Some info) \<Rightarrow>
               Some \<lparr>sku = s, qty = q, location_id = loc, last_modified = lm,
                     additional_info = info\<rparr>
           | _ \<Rightarrow> None)
      | _ \<Rightarrow> None)"

subsection \<open>\<^verbatim>\<open>MarketplaceAAdapter.transform\<close>, \<^verbatim>\<open>MarketplaceBAdapter.transform\<close>\<close>

text \<open>
  Whatever is thrown inside the \<^verbatim>\<open>try\<close> block (the \<^verbatim>\<open>ZodError\<close> of \<^verbatim>\<open>parse\<close>, the
  \<^verbatim>\<open>RangeError\<close> of \<^verbatim>\<open>toISOString\<close>) is rethrown as \<^verbatim>\<open>Invalid Marketplace ... payload\<close>.
\<close>

definition transform_A :: "json \<Rightarrow> error + InternalInventory" where
  "transform_A payload =
     (case MarketplaceAPayloadSchema payload of
        None \<Rightarrow> Inl BadPayload
      | Some validated \<Rightarrow>
          Inr \<lparr>productId = product_code validated,
               quantity = available_stock validated,
               source = marketplace_a,
               warehouseId = warehouse validated,
               updatedAt = timestamp validated,
               metadata = payload_metadata validated\<rparr>)"

definition transform_B :: "json \<Rightarrow> error + InternalInventory" where
  "transform_B payload =
     (case MarketplaceBPayloadSchema payload of
        None \<Rightarrow> Inl BadPayload
      | Some validated \<Rightarrow>
          (case Date_toISOString (last_modified validated * 1000) of
             None \<Rightarrow> Inl BadPayload
           | Some stamp \<Rightarrow>
               Inr \<lparr>productId = sku validated,
                    quantity = qty validated,
                    source = marketplace_b,
                    warehouseId = location_id validated,
                    updatedAt = stamp,
                    metadata = additional_info validated\<rparr>))"

text \<open>\<^verbatim>\<open>transformBatch\<close>: items that fail are logged and skipped.\<close>

definition transformBatch :: "json list \<Rightarrow> InternalInventory list" where
  "transformBatch payloads =
     concat (map (\<lambda>payload. case transform_B payload of Inl _ \<Rightarrow> [] | Inr item \<Rightarrow> [item])
       payloads)"

subsection \<open>\<^verbatim>\<open>MarketplaceAAdapter.validateSignature\<close>\<close>

text \<open>
  HMAC-SHA256 is the platform's (\<^verbatim>\<open>crypto.createHmac('sha256', secret)\<close>): a parameter
  \<open>hmac\<close> from key and message to the 256-bit digest. \<^verbatim>\<open>digest('hex')\<close> prints the digest
  as 64 lower-case hexadecimal digits, most significant first.
\<close>

type_synonym hmac_sha256 = "string \<Rightarrow> string \<Rightarrow> 256 word"

definition digest_hex :: "256 word \<Rightarrow> string" where
  "digest_hex d = map (\<lambda>i. digit_char (unat (drop_bit (4 * (63 - i)) d) mod 16)) [0..<64]"

text \<open>\<^verbatim>\<open>process.env.MARKETPLACE_A_SECRET || 'secret'\<close>\<close>

definition secret_of :: "string option \<Rightarrow> string" where
  "secret_of env_secret =
     (case env_secret of None \<Rightarrow> ''secret'' | Some s \<Rightarrow> if s = [] then ''secret'' else s)"

text \<open>\<^verbatim>\<open>crypto.timingSafeEqual\<close> throws when the two buffers differ in byte length.\<close>

definition timingSafeEqual :: "string \<Rightarrow> string \<Rightarrow> error + bool" where
  "timingSafeEqual a b = (if length a \<noteq> length b then Inl RangeError else Inr (a = b))"

definition validateSignature ::
  "hmac_sha256 \<Rightarrow> string option \<Rightarrow> string \<Rightarrow> string \<Rightarrow> error + bool" where
  "validateSignature hmac env_secret payload signature =
     (let secret = secret_of env_secret;
          expectedSignature = digest_hex (hmac secret payload)
      in timingSafeEqual signature expectedSignature)"

section \<open>Queue: \<^verbatim>\<open>QueueService\<close>\<close>

text \<open>
  \<^verbatim>\<open>Date.now()\<close> reads the clock in milliseconds. A clock is the sequence of the readings
  it will give, with the number of readings taken so far; each call takes the next one.
\<close>

record clock =
  readings :: "nat \<Rightarrow> nat"
  taken :: nat

definition Date_now :: "clock \<Rightarrow> nat \<times> clock" where
  "Date_now c = (readings c (taken c), c\<lparr>taken := Suc (taken c)\<rparr>)"

record InventoryJobData =
  data_inventory :: InternalInventory
  retryCount :: "nat option"

text \<open>
  What the service hands to BullMQ: the job's name is always \<^verbatim>\<open>process-inventory-update\<close>.
  \<open>added\<close> lists these requests in the order of the calls; \<open>redis_up\<close> says whether the
  queue's store answers (\<^verbatim>\<open>queue.add\<close> and \<^verbatim>\<open>queue.addBulk\<close> throw when it does not).
\<close>

record job_request =
  req_data :: InventoryJobData
  req_priority :: "int option"
  req_jobId :: string

record queue_state =
  added :: "job_request list"
  redis_up :: bool

definition addInventoryUpdate ::
  "InventoryJobData \<Rightarrow> int \<Rightarrow> queue_state \<Rightarrow> clock \<Rightarrow> (error + string) \<times> queue_state \<times> clock" where
  "addInventoryUpdate jobData priority q c =
     (let (now, c') = Date_now c;
          jobId = source_str (source (data_inventory jobData)) @ ''-'' @
                  productId (data_inventory jobData) @ ''-'' @ show_nat now
      in if redis_up q
         then (Inr jobId,
               q\<lparr>added := added q @
                    [\<lparr>req_data = jobData, req_priority = Some priority, req_jobId = jobId\<rparr>]\<rparr>,
               c')
         else (Inl QueueUnavailable, q, c'))"

text \<open>\<^verbatim>\<open>updates.map((data, index) => ...)\<close>: one reading of the clock for each entry.\<close>

fun batch_jobs :: "InventoryJobData list \<Rightarrow> nat \<Rightarrow> clock \<Rightarrow> job_request list \<times> clock" where
  "batch_jobs [] index c = ([], c)"
| "batch_jobs (data # updates) index c =
     (let (now, c') = Date_now c;
          jobId = source_str (source (data_inventory data)) @ ''-'' @
                  productId (data_inventory data) @ ''-'' @ show_nat now @ ''-'' @ show_nat index;
          (jobs, c'') = batch_jobs updates (Suc index) c'
      in (\<lparr>req_data = data, req_priority = None, req_jobId = jobId\<rparr> # jobs, c''))"

definition addBatch ::
  "InventoryJobData list \<Rightarrow> queue_state \<Rightarrow> clock \<Rightarrow> (error + unit) \<times> queue_state \<times> clock" where
  "addBatch updates q c =
     (let (jobs, c') = batch_jobs updates 0 c
      in if redis_up q then (Inr (), q\<lparr>added := added q @ jobs\<rparr>, c')
         else (Inl QueueUnavailable, q, c'))"

section \<open>Service: \<^verbatim>\<open>InventoryService\<close>, enqueueing\<close>

definition processUpdate ::
  "InternalInventory \<Rightarrow> queue_state \<Rightarrow> clock \<Rightarrow> (error + string) \<times> queue_state \<times> clock" where
  "processUpdate item q c =
     addInventoryUpdate \<lparr>data_inventory = item, retryCount = Some 0\<rparr> 0 q c"

definition processBatch ::
  "InternalInventory list \<Rightarrow> queue_state \<Rightarrow> clock \<Rightarrow> (error + unit) \<times> queue_state \<times> clock" where
  "processBatch inventories q c =
     addBatch (map (\<lambda>item. \<lparr>data_inventory = item, retryCount = Some 0\<rparr>) inventories) q c"

section \<open>Webhook: \<^verbatim>\<open>WebhookController.handleMarketplaceA\<close>\<close>

text \<open>
  The request as the handler has it. \<open>body\<close> is \<^verbatim>\<open>req.body\<close>, the value that the
  \<^verbatim>\<open>express.json()\<close> middleware parsed from the bytes \<open>received\<close>; the middleware keeps
  no copy of those bytes, and the handler reads \<open>body\<close> and the header only.
\<close>

record Request =
  received :: string
  x_marketplace_signature :: "string option"
  body :: json

record Response =
  status :: nat
  success :: bool
  data :: "(string \<times> string) option"

definition handleMarketplaceA ::
  "hmac_sha256 \<Rightarrow> string option \<Rightarrow> Request \<Rightarrow> queue_state \<Rightarrow> clock \<Rightarrow>
     Response \<times> queue_state \<times> clock" where
  "handleMarketplaceA hmac env_secret req q c =
     (let signature = x_marketplace_signature req;
          rawBody = JSON_stringify (body req);
          unauthorized = (\<lparr>status = 401, success = False, data = None\<rparr>, q, c);
          failed = \<lparr>status = 500, success = False, data = None\<rparr>
      in case signature of
           None \<Rightarrow> unauthorized
         | Some sig \<Rightarrow>
             if sig = [] then unauthorized
             else
               (case validateSignature hmac env_secret rawBody sig of
                  Inl e \<Rightarrow> (failed, q, c)
                | Inr False \<Rightarrow> unauthorized
                | Inr True \<Rightarrow>
                    (case transform_A (body req) of
                       Inl e \<Rightarrow> (failed, q, c)
                     | Inr internalInventory \<Rightarrow>
                         (case processUpdate internalInventory q c of
                            (Inl e, q', c') \<Rightarrow> (failed, q', c')
                          | (Inr jobId, q', c') \<Rightarrow>
                              (\<lparr>status = 202, success = True,
                                data = Some (jobId, productId internalInventory)\<rparr>, q', c')))))"

section \<open>Lock: \<^verbatim>\<open>LockService\<close>\<close>

record LockOptions =
  ttl :: nat
  retries :: nat
  retryDelay :: nat

definition defaultOptions :: LockOptions where
  "defaultOptions = \<lparr>ttl = 10000, retries = 5, retryDelay = 200\<rparr>"

text \<open>
  What Redlock does is the environment's: \<open>acquire_ok\<close> says whether \<^verbatim>\<open>redlock.acquire\<close>
  obtains the key within its retries, \<open>release_ok\<close> whether \<^verbatim>\<open>lock.release()\<close> succeeds.
  The state keeps the keys this client holds with their time to live, and the calls made.
\<close>

record lock_env =
  acquire_ok :: bool
  release_ok :: bool

datatype lock_event = Acquire string | Release string

record lock_state =
  held :: "(string \<times> nat) list"
  calls :: "lock_event list"

definition acquireLock ::
  "lock_env \<Rightarrow> string \<Rightarrow> LockOptions \<Rightarrow> lock_state \<Rightarrow> (error + string) \<times> lock_state" where
  "acquireLock env product opts ls =
     (let lockKey = ''lock:inventory:'' @ product;
          ls' = ls\<lparr>calls := calls ls @ [Acquire lockKey]\<rparr>
      in if acquire_ok env then (Inr lockKey, ls'\<lparr>held := (lockKey, ttl opts) # held ls'\<rparr>)
         else (Inl LockUnavailable, ls'))"

text \<open>\<^verbatim>\<open>lock.release()\<close> of Redlock: it may throw.\<close>

definition lock_release :: "lock_env \<Rightarrow> string \<Rightarrow> lock_state \<Rightarrow> (error + unit) \<times> lock_state" where
  "lock_release env lockKey ls =
     (let ls' = ls\<lparr>calls := calls ls @ [Release lockKey]\<rparr>
      in if release_ok env then (Inr (), ls'\<lparr>held := filter (\<lambda>kv. fst kv \<noteq> lockKey) (held ls')\<rparr>)
         else (Inl LockUnavailable, ls'))"

text \<open>\<^verbatim>\<open>releaseLock\<close>: the \<^verbatim>\<open>catch\<close> block logs the error and returns.\<close>

definition releaseLock :: "lock_env \<Rightarrow> string \<Rightarrow> lock_state \<Rightarrow> (error + unit) \<times> lock_state" where
  "releaseLock env lock ls =
     (case lock_release env lock ls of
        (Inl e, ls') \<Rightarrow> (Inr (), ls')
      | (Inr u, ls') \<Rightarrow> (Inr (), ls'))"

text \<open>
  \<^verbatim>\<open>withLock\<close>: \<^verbatim>\<open>try { return await fn() } finally { await this.releaseLock(lock) }\<close>.
  An error thrown in a \<^verbatim>\<open>finally\<close> block replaces the outcome of the \<^verbatim>\<open>try\<close> block.
  \<open>fn\<close> works on a state of its own.
\<close>

definition withLock ::
  "lock_env \<Rightarrow> string \<Rightarrow> ('s \<Rightarrow> (error + 'a) \<times> 's) \<Rightarrow> LockOptions \<Rightarrow> lock_state \<times> 's \<Rightarrow>
     (error + 'a) \<times> lock_state \<times> 's" where
  "withLock env product fn options st =
     (case acquireLock env product options (fst st) of
        (Inl e, ls') \<Rightarrow> (Inl e, ls', snd st)
      | (Inr lock, ls') \<Rightarrow>
          (case fn (snd st) of
             (result, s') \<Rightarrow>
               (case releaseLock env lock ls' of
                  (Inl e, ls'') \<Rightarrow> (Inl e, ls'', s')
                | (Inr u, ls'') \<Rightarrow> (result, ls'', s'))))"

section \<open>Service: \<^verbatim>\<open>InventoryService.executeUpdate\<close>\<close>

definition executeUpdate ::
  "lock_env \<Rightarrow> db_env \<Rightarrow> InternalInventory \<Rightarrow> lock_state \<times> database \<Rightarrow>
     (error + unit) \<times> lock_state \<times> database" where
  "executeUpdate lenv denv item st =
     withLock lenv (productId item)
       (\<lambda>db. case upsert denv item db of
                (Inl e, db') \<Rightarrow> (Inl e, db')
              | (Inr row, db') \<Rightarrow> (Inr (), db'))
       \<lparr>ttl = 10000, retries = 3, retryDelay = 500\<rparr> st"

section \<open>Worker: \<^verbatim>\<open>InventoryWorker.processJob\<close>\<close>

record Job =
  job_id :: string
  job_data :: InventoryJobData
  attemptsMade :: nat

record job_result =
  result_success :: bool
  result_productId :: string
  result_quantity :: int

text \<open>\<open>progress_ok p\<close>: whether \<^verbatim>\<open>job.updateProgress(p)\<close> reaches the queue's store.\<close>

record worker_env =
  worker_lock :: lock_env
  worker_db :: db_env
  progress_ok :: "nat \<Rightarrow> bool"

text \<open>The \<^verbatim>\<open>try\<close> block of \<^verbatim>\<open>processJob\<close>.\<close>

definition processJob_try ::
  "worker_env \<Rightarrow> Job \<Rightarrow> lock_state \<times> database \<Rightarrow> (error + job_result) \<times> lock_state \<times> database" where
  "processJob_try env job st =
     (let item = data_inventory (job_data job)
      in if \<not> progress_ok env 10 then (Inl QueueUnavailable, st)
         else
           (case executeUpdate (worker_lock env) (worker_db env) item st of
              (Inl e, st') \<Rightarrow> (Inl e, st')
            | (Inr u, st') \<Rightarrow>
                if \<not> progress_ok env 100 then (Inl QueueUnavailable, st')
                else (Inr \<lparr>result_success = True, result_productId = productId item,
                           result_quantity = quantity item\<rparr>, st')))"

text \<open>
  \<^verbatim>\<open>processJob\<close>: the \<^verbatim>\<open>catch\<close> block logs the error and throws it again
  (\<^verbatim>\<open>// Will trigger automatic retry\<close>), whatever the error is.
\<close>

definition processJob ::
  "worker_env \<Rightarrow> Job \<Rightarrow> lock_state \<times> database \<Rightarrow> (error + job_result) \<times> lock_state \<times> database" where
  "processJob env job st =
     (case processJob_try env job st of
        (Inl error, st') \<Rightarrow> (Inl error, st')
      | (Inr result, st') \<Rightarrow> (Inr result, st'))"

text \<open>
  What the queue does with the outcome of an attempt, under the \<^verbatim>\<open>defaultJobOptions\<close> of
  \<^verbatim>\<open>QueueService\<close> (\<^verbatim>\<open>attempts: 5\<close>, exponential backoff from \<^verbatim>\<open>delay: 2000\<close>): a job whose
  processor throws is delayed for another attempt while attempts remain, and failed after
  the last one. The service never throws the library's \<^verbatim>\<open>UnrecoverableError\<close>, the one way
  for a processor to ask for no retry.
\<close>

datatype job_state = Waiting | Active | Delayed nat | Completed | Failed

definition attempts :: nat where
  "attempts = 5"

definition backoff_delay :: nat where
  "backoff_delay = 2000"

definition after_attempt :: "Job \<Rightarrow> error + job_result \<Rightarrow> job_state" where
  "after_attempt job outcome =
     (case outcome of
        Inr result \<Rightarrow> Completed
      | Inl e \<Rightarrow>
          if Suc (attemptsMade job) < attempts
          then Delayed (backoff_delay * 2 ^ attemptsMade job)
          else Failed)"

definition run_attempt ::
  "worker_env \<Rightarrow> Job \<Rightarrow> lock_state \<times> database \<Rightarrow> job_state \<times> lock_state \<times> database" where
  "run_attempt env job st =
     (case processJob env job st of (outcome, st') \<Rightarrow> (after_attempt job outcome, st'))"

section \<open>Polling: \<^verbatim>\<open>PollingService\<close>\<close>

subsection \<open>\<^verbatim>\<open>parseInt\<close>\<close>

text \<open>
  \<^verbatim>\<open>parseInt(s)\<close>: leading white space, an optional sign, then the longest run of digits
  (hexadecimal after \<^verbatim>\<open>0x\<close>); \<open>None\<close> is \<^verbatim>\<open>NaN\<close>.
\<close>

definition is_space :: "char \<Rightarrow> bool" where
  "is_space c \<longleftrightarrow> c \<in> set [CHR '' '', CHR 0x09, CHR 0x0A, CHR 0x0B, CHR 0x0C, CHR 0x0D]"

definition hex_value :: "char \<Rightarrow> nat option" where
  "hex_value c =
     (let n = (of_char c :: nat)
      in if 48 \<le> n \<and> n \<le> 57 then Some (n - 48)
         else if 97 \<le> n \<and> n \<le> 102 then Some (n - 87)
         else if 65 \<le> n \<and> n \<le> 70 then Some (n - 55)
         else None)"

definition is_digit :: "nat \<Rightarrow> char \<Rightarrow> bool" where
  "is_digit radix c \<longleftrightarrow> (case hex_value c of None \<Rightarrow> False | Some v \<Rightarrow> v < radix)"

definition digits_value :: "nat \<Rightarrow> string \<Rightarrow> nat" where
  "digits_value radix ds = foldl (\<lambda>a c. radix * a + (case hex_value c of None \<Rightarrow> 0 | Some v \<Rightarrow> v)) 0 ds"

definition parseInt :: "string \<Rightarrow> int option" where
  "parseInt s =
     (let s1 = dropWhile is_space s;
          negative = (case s1 of c # _ \<Rightarrow> c = CHR ''-'' | [] \<Rightarrow> False);
          s2 = (case s1 of c # r \<Rightarrow> if c = CHR ''-'' \<or> c = CHR ''+'' then r else s1 | [] \<Rightarrow> s1);
          hex = (take 2 s2 = ''0x'' \<or> take 2 s2 = ''0X'');
          radix = (if hex then 16 else 10);
          ds = takeWhile (is_digit radix) (if hex then drop 2 s2 else s2)
      in if ds = [] then None
         else Some ((if negative then - 1 else 1) * int (digits_value radix ds)))"

subsection \<open>The polling cycle\<close>

text \<open>
  The service's fields, the key \<^verbatim>\<open>marketplace_b:last_timestamp\<close> of the shared store, the
  queue, the clock, and the number of pending circuit-breaker timers.
\<close>

record poll_state =
  isRunning :: bool
  consecutiveFailures :: nat
  last_timestamp :: "string option"
  queue :: queue_state
  clk :: clock
  reset_timers :: nat

text \<open>
  The environment of one cycle: \<open>http_get since\<close> is the answer of Marketplace B to
  \<^verbatim>\<open>GET /inventory/updates?since=...\<close> (an error, or \<^verbatim>\<open>response.data.items\<close>, which may
  be missing); \<open>store_get_ok\<close> and \<open>store_set_ok\<close> say whether the shared store answers.
\<close>

record poll_env =
  http_get :: "int option \<Rightarrow> error + json list option"
  store_get_ok :: bool
  store_set_ok :: bool

definition MAX_FAILURES :: nat where
  "MAX_FAILURES = 3"

datatype poll_outcome = AlreadyRunning | CircuitOpen | NoUpdates | Processed nat | PollFailed error

definition getLastProcessedTimestamp :: "poll_env \<Rightarrow> poll_state \<Rightarrow> (error + int option) \<times> poll_state" where
  "getLastProcessedTimestamp env st =
     (if \<not> store_get_ok env then (Inl TransientStorage, st)
      else
        (case last_timestamp st of
           Some stored \<Rightarrow>
             if stored \<noteq> [] then (Inr (parseInt stored), st)
             else (case Date_now (clk st) of
                     (now, c) \<Rightarrow> (Inr (Some (int (now div 1000) - 3600)), st\<lparr>clk := c\<rparr>))
         | None \<Rightarrow>
             (case Date_now (clk st) of
                (now, c) \<Rightarrow> (Inr (Some (int (now div 1000) - 3600)), st\<lparr>clk := c\<rparr>))))"

definition fetchUpdates :: "poll_env \<Rightarrow> int option \<Rightarrow> error + json list" where
  "fetchUpdates env sinceTimestamp =
     (case http_get env sinceTimestamp of
        Inl e \<Rightarrow> Inl e
      | Inr items \<Rightarrow> Inr (case items of None \<Rightarrow> [] | Some xs \<Rightarrow> xs))"

definition updateLastProcessedTimestamp :: "poll_env \<Rightarrow> poll_state \<Rightarrow> (error + unit) \<times> poll_state" where
  "updateLastProcessedTimestamp env st =
     (case Date_now (clk st) of
        (now, c) \<Rightarrow>
          (let currentTimestamp = now div 1000;
               st' = st\<lparr>clk := c\<rparr>
           in if store_set_ok env
              then (Inr (), st'\<lparr>last_timestamp := Some (show_nat currentTimestamp)\<rparr>)
              else (Inl TransientStorage, st')))"

text \<open>The \<^verbatim>\<open>try\<close> block of \<^verbatim>\<open>poll\<close>.\<close>

definition poll_try :: "poll_env \<Rightarrow> poll_state \<Rightarrow> (error + poll_outcome) \<times> poll_state" where
  "poll_try env st =
     (case getLastProcessedTimestamp env st of
        (Inl e, st1) \<Rightarrow> (Inl e, st1)
      | (Inr lastTimestamp, st1) \<Rightarrow>
          (case fetchUpdates env lastTimestamp of
             Inl e \<Rightarrow> (Inl e, st1)
           | Inr updates \<Rightarrow>
               if length updates = 0
               then (Inr NoUpdates, st1\<lparr>consecutiveFailures := 0\<rparr>)
               else
                 (let transformed = transformBatch updates
                  in case processBatch transformed (queue st1) (clk st1) of
                       (Inl e, q, c) \<Rightarrow> (Inl e, st1\<lparr>queue := q, clk := c\<rparr>)
                     | (Inr u, q, c) \<Rightarrow>
                         (case updateLastProcessedTimestamp env (st1\<lparr>queue := q, clk := c\<rparr>) of
                            (Inl e, st2) \<Rightarrow> (Inl e, st2)
                          | (Inr u', st2) \<Rightarrow>
                              (Inr (Processed (length transformed)),
                               st2\<lparr>consecutiveFailures := 0\<rparr>)))))"

text \<open>
  \<^verbatim>\<open>poll\<close>: the single-flight guard, the circuit breaker (which schedules a timer and
  returns), then the \<^verbatim>\<open>try\<close> block; \<^verbatim>\<open>catch\<close> counts the failure and \<^verbatim>\<open>finally\<close>
  clears \<open>isRunning\<close>.
\<close>

definition poll :: "poll_env \<Rightarrow> poll_state \<Rightarrow> poll_outcome \<times> poll_state" where
  "poll env st =
     (if isRunning st then (AlreadyRunning, st)
      else if consecutiveFailures st \<ge> MAX_FAILURES
      then (CircuitOpen, st\<lparr>reset_timers := Suc (reset_timers st)\<rparr>)
      else
        (case poll_try env (st\<lparr>isRunning := True\<rparr>) of
           (Inl e, st') \<Rightarrow>
             (PollFailed e,
              st'\<lparr>consecutiveFailures := Suc (consecutiveFailures st'), isRunning := False\<rparr>)
         | (Inr outcome, st') \<Rightarrow> (outcome, st'\<lparr>isRunning := False\<rparr>)))"

text \<open>The timer of the circuit breaker, when it fires.\<close>

definition circuit_reset :: "poll_state \<Rightarrow> poll_state" where
  "circuit_reset st = st\<lparr>consecutiveFailures := 0, reset_timers := reset_timers st - 1\<rparr>"

subsection \<open>Reading a job id\<close>

text \<open>The number after the last \<^verbatim>\<open>-\<close> of a job id.\<close>

definition index_of :: "string \<Rightarrow> nat" where
  "index_of s = digits_value 10 (rev (takeWhile (\<lambda>c. c \<noteq> CHR ''-'') (rev s)))"

section \<open>Concrete inputs\<close>

definition no_fault :: db_env where
  "no_fault = \<lparr>db_fault = None, db_now = 0\<rparr>"

definition two_upserts :: "(db_env \<times> InternalInventory) list" where
  "two_upserts =
     [(no_fault,
       \<lparr>productId = ''PROD-X'', quantity = 10, source = marketplace_a,
        warehouseId = Some ''WH-NY-01'', updatedAt = ''2026-01-01T10:00:00Z'', metadata = None\<rparr>),
      (no_fault,
       \<lparr>productId = ''PROD-X'', quantity = 20, source = marketplace_a,
        warehouseId = Some ''WH-NY-01'', updatedAt = ''2026-01-01T10:00:00Z'', metadata = None\<rparr>)]"

definition zero_item :: InternalInventory where
  "zero_item =
     \<lparr>productId = ''PROD-ABC-123'', quantity = 0, source = marketplace_a,
      warehouseId = Some ''WH-NY-01'', updatedAt = ''2026-01-01T10:00:00Z'', metadata = None\<rparr>"

definition negative_payload_A :: json where
  "negative_payload_A =
     JObj [(''product_code'', JStr ''PROD-ABC-123''), (''available_stock'', JNum (- 1)),
           (''timestamp'', JStr ''2026-01-01T10:00:00Z''), (''warehouse'', JStr ''WH-NY-01'')]"

definition negative_payload_B :: json where
  "negative_payload_B =
     JObj [(''sku'', JStr ''SKU1''), (''qty'', JNum (- 7)), (''location_id'', JStr ''L''),
           (''last_modified'', JNum 1735689600)]"

definition release_fails :: lock_env where
  "release_fails = \<lparr>acquire_ok = True, release_ok = False\<rparr>"

definition no_locks :: lock_state where
  "no_locks = \<lparr>held = [], calls = []\<rparr>"

definition failing_fn :: "nat \<Rightarrow> (error + unit) \<times> nat" where
  "failing_fn s = (Inl PermanentStorage, Suc s)"

definition empty_queue :: queue_state where
  "empty_queue = \<lparr>added = [], redis_up = True\<rparr>"

definition same_ms_clock :: clock where
  "same_ms_clock = \<lparr>readings = (\<lambda>n. 1700000000000), taken = 0\<rparr>"

definition prod_x :: "int \<Rightarrow> InventoryJobData" where
  "prod_x q =
     \<lparr>data_inventory =
        \<lparr>productId = ''PROD-X'', quantity = q, source = marketplace_a, warehouseId = None,
         updatedAt = ''2026-01-01T10:00:00Z'', metadata = None\<rparr>,
      retryCount = Some 0\<rparr>"

definition first_enqueue :: "(error + string) \<times> queue_state \<times> clock" where
  "first_enqueue = addInventoryUpdate (prod_x 10) 0 empty_queue same_ms_clock"

definition second_enqueue :: "(error + string) \<times> queue_state \<times> clock" where
  "second_enqueue =
     addInventoryUpdate (prod_x 20) 0 (fst (snd first_enqueue)) (snd (snd first_enqueue))"

definition webhook_body :: json where
  "webhook_body =
     JObj [(''product_code'', JStr ''PROD-ABC-123''), (''available_stock'', JNum 50),
           (''timestamp'', JStr ''2026-01-01T10:00:00Z''), (''warehouse'', JStr ''WH-NY-01'')]"

definition compact_text :: string where
  "compact_text =
     ''{\"product_code\":\"PROD-ABC-123\",\"available_stock\":50,'' @
     ''\"timestamp\":\"2026-01-01T10:00:00Z\",\"warehouse\":\"WH-NY-01\"}''"

definition spaced_text :: string where
  "spaced_text =
     ''{\"product_code\": \"PROD-ABC-123\", \"available_stock\": 50, '' @
     ''\"timestamp\": \"2026-01-01T10:00:00Z\", \"warehouse\": \"WH-NY-01\"}''"

definition signed_request :: "hmac_sha256 \<Rightarrow> string option \<Rightarrow> string \<Rightarrow> json \<Rightarrow> Request" where
  "signed_request hmac env_secret raw parsed =
     \<lparr>received = raw,
      x_marketplace_signature = Some (digest_hex (hmac (secret_of env_secret) raw)),
      body = parsed\<rparr>"

definition short_signature_request :: Request where
  "short_signature_request =
     \<lparr>received = compact_text, x_marketplace_signature = Some ''abc'', body = webhook_body\<rparr>"

definition healthy_worker :: worker_env where
  "healthy_worker =
     \<lparr>worker_lock = \<lparr>acquire_ok = True, release_ok = True\<rparr>,
      worker_db = no_fault,
      progress_ok = (\<lambda>p. True)\<rparr>"

definition negative_job :: Job where
  "negative_job =
     \<lparr>job_id = ''marketplace_a-PROD-ABC-123-1700000000000'',
      job_data =
        \<lparr>data_inventory =
           \<lparr>productId = ''PROD-ABC-123'', quantity = - 1, source = marketplace_a,
            warehouseId = Some ''WH-NY-01'', updatedAt = ''2026-01-01T10:00:00Z'',
            metadata = None\<rparr>,
         retryCount = Some 0\<rparr>,
      attemptsMade = 0\<rparr>"

definition flaky_database_worker :: worker_env where
  "flaky_database_worker =
     \<lparr>worker_lock = \<lparr>acquire_ok = True, release_ok = True\<rparr>,
      worker_db = \<lparr>db_fault = Some TransientStorage, db_now = 0\<rparr>,
      progress_ok = (\<lambda>p. True)\<rparr>"

definition second_attempt_job :: Job where
  "second_attempt_job =
     \<lparr>job_id = ''marketplace_a-PROD-X-1700000000000'', job_data = prod_x 10, attemptsMade = 1\<rparr>"

definition ticking_clock :: clock where
  "ticking_clock = \<lparr>readings = (\<lambda>n. 1767261600000 + 2000 * n), taken = 0\<rparr>"

definition idle_poller :: poll_state where
  "idle_poller =
     \<lparr>isRunning = False, consecutiveFailures = 0, last_timestamp = None,
      queue = empty_queue, clk = ticking_clock, reset_timers = 0\<rparr>"

definition empty_feed :: poll_env where
  "empty_feed = \<lparr>http_get = (\<lambda>since. Inr (Some [])), store_get_ok = True, store_set_ok = True\<rparr>"

definition sku1_payload :: json where
  "sku1_payload =
     JObj [(''sku'', JStr ''SKU1''), (''qty'', JNum 7), (''location_id'', JStr ''L''),
           (''last_modified'', JNum 1735689600)]"

definition sku1_feed :: poll_env where
  "sku1_feed =
     \<lparr>http_get = (\<lambda>since. Inr (Some [sku1_payload])), store_get_ok = True,
      store_set_ok = True\<rparr>"

definition far_future_payload :: json where
  "far_future_payload =
     JObj [(''sku'', JStr ''SKU1''), (''qty'', JNum 7), (''location_id'', JStr ''L''),
           (''last_modified'', JNum 8640000000001)]"

section \<open>Properties of the repository\<close>

lemma upsert_failure_unchanged:
  "fst (upsert env item db) = Inl e \<Longrightarrow> snd (upsert env item db) = db"
  by (auto simp: upsert_def Let_def split: option.splits if_splits)

lemma same_key_updated_row [simp]: "same_key item (updated_row item' r) = same_key item r"
  by (simp add: same_key_def updated_row_def)

lemma same_key_inserted_row [simp]: "same_key item (inserted_row env i item)"
  by (simp add: same_key_def inserted_row_def)

lemma updated_row_idem [simp]: "updated_row item (updated_row item r) = updated_row item r"
  by (simp add: updated_row_def)

lemma updated_row_inserted [simp]:
  "updated_row item (inserted_row env i item) = inserted_row env i item"
  by (simp add: updated_row_def inserted_row_def)

lemma row_quantity_updated [simp]: "row_quantity (updated_row item r) = quantity item"
  by (simp add: updated_row_def)

lemma row_quantity_inserted [simp]: "row_quantity (inserted_row env i item) = quantity item"
  by (simp add: inserted_row_def)

lemma filter_map_updated:
  "filter (same_key item) (map (\<lambda>r. if same_key item r then updated_row item r else r) rows)
     = map (updated_row item) (filter (same_key item) rows)"
  by (induction rows) auto

lemma map_updated_idem:
  "map (\<lambda>r. if same_key item r then updated_row item r else r)
      (map (\<lambda>r. if same_key item r then updated_row item r else r) rows)
     = map (\<lambda>r. if same_key item r then updated_row item r else r) rows"
  by (induction rows) auto

lemma map_updated_none:
  "filter (same_key item) rows = [] \<Longrightarrow>
   map (\<lambda>r. if same_key item r then updated_row item r else r) rows = rows"
  by (induction rows) (auto split: if_splits)

lemma covers_updated:
  "same_key item r \<Longrightarrow>
   covers (updated_row item r)
     \<lparr>audit_id = j, audit_product_id = productId item, old_quantity = oq,
      new_quantity = Some (quantity item), audit_source = source_str (source item),
      changed_at = t, audit_metadata = md\<rparr>"
  by (simp add: covers_def updated_row_def same_key_def)

lemma covers_inserted:
  "covers (inserted_row env i item)
     \<lparr>audit_id = j, audit_product_id = productId item, old_quantity = oq,
      new_quantity = Some (quantity item), audit_source = source_str (source item),
      changed_at = t, audit_metadata = md\<rparr>"
  by (simp add: covers_def inserted_row_def)

lemma upsert_keeps_coverage:
  assumes "audit_coverage db"
  shows "audit_coverage (snd (upsert env item db))"
  using assms
  by (auto simp: upsert_def Let_def audit_coverage_def list_all_iff list_ex_iff
        covers_updated covers_inserted split: option.splits list.splits)

lemma run_upserts_keeps_coverage:
  "audit_coverage db \<Longrightarrow> audit_coverage (run_upserts ops db)"
  by (induction ops arbitrary: db) (auto simp: upsert_keeps_coverage)

lemma audit_coverage_empty: "audit_coverage empty_database"
  by (simp add: audit_coverage_def empty_database_def)

text \<open>
  Replay of a record that was just stored: the second upsert returns the same row and
  leaves the inventory table as it was; its audit row has the same \<open>new_quantity\<close>, and
  its \<open>old_quantity\<close> is that quantity after \<^verbatim>\<open>|| null\<close>.
\<close>

lemma upsert_replay:
  assumes "fst (upsert env item db) = Inr r" and "db_fault env' = None"
  shows "fst (upsert env' item (snd (upsert env item db))) = Inr r
       \<and> inventory (snd (upsert env' item (snd (upsert env item db))))
           = inventory (snd (upsert env item db))
       \<and> map new_quantity (inventory_audit (snd (upsert env' item (snd (upsert env item db)))))
           = map new_quantity (inventory_audit db) @ [Some (quantity item), Some (quantity item)]
       \<and> old_quantity (last (inventory_audit (snd (upsert env' item (snd (upsert env item db))))))
           = number_or_null (Some (quantity item))"
  using assms
  by (auto simp: upsert_def Let_def filter_map_updated map_updated_idem map_updated_none
        split: option.splits list.splits if_splits)

text \<open>
  C8. Audit coverage is an invariant of the repository: if every inventory row has an audit
  row of the same product, source and quantity, then this still holds after an upsert,
  whether it commits or rolls back, and after any sequence of upserts; so it holds in every
  state reached from the empty tables.
\<close>

theorem upsert_preserves_audit_coverage:
  assumes "audit_coverage db"
  shows "audit_coverage (snd (upsert env item db)) \<and> audit_coverage (run_upserts ops db)"
  using assms by (simp add: upsert_keeps_coverage run_upserts_keeps_coverage)

theorem upsert_preserves_audit_coverage_witness:
  "audit_coverage empty_database \<and>
   map row_quantity (inventory (run_upserts two_upserts empty_database)) = [20] \<and>
   audit_coverage (run_upserts two_upserts empty_database)"
proof -
  have h: "audit_coverage empty_database"
    by (simp add: audit_coverage_def empty_database_def)
  have cov: "audit_coverage (run_upserts two_upserts empty_database)"
    by (rule upsert_preserves_audit_coverage [OF h, THEN conjunct2])
  have rows: "map row_quantity (inventory (run_upserts two_upserts empty_database)) = [20]"
    by (simp add: two_upserts_def no_fault_def upsert_def empty_database_def same_key_def
          violates_constraint_def Let_def inserted_row_def updated_row_def)
  show ?thesis using h cov rows by blast
qed

text \<open>
  C4. Replay of a record whose quantity is 0: both audit rows have \<open>new_quantity = 0\<close>, but
  the second one's \<open>old_quantity\<close> is \<^verbatim>\<open>NULL\<close>, not 0, because
  \<^verbatim>\<open>oldRecord.rows[0]?.quantity || null\<close> takes the stored 0 for a missing value.
\<close>

theorem upsert_replay_zero_quantity:
  "map new_quantity (inventory_audit (run_upserts [(no_fault, zero_item), (no_fault, zero_item)]
      empty_database)) = [Some 0, Some 0] \<and>
   map old_quantity (inventory_audit (run_upserts [(no_fault, zero_item), (no_fault, zero_item)]
      empty_database)) = [None, None] \<and>
   map row_quantity (inventory (run_upserts [(no_fault, zero_item), (no_fault, zero_item)]
      empty_database)) = [0]"
  by (simp add: no_fault_def zero_item_def upsert_def empty_database_def same_key_def
        violates_constraint_def number_or_null_def Let_def inserted_row_def updated_row_def)

section \<open>Properties of the adapters\<close>

lemmas zod_defs =
  z_string_def z_number_int_def z_number_def z_string_optional_def z_record_optional_def

lemmas civil_defs = civil_from_days_def civil_year_def civil_month_def civil_day_def
  month_index_def day_of_year_def year_of_era_def day_of_era_def era_def

lemma toISOString_example:
  "Date_toISOString 1735689600000 = Some ''2025-01-01T00:00:00.000Z''"
  by (simp add: Date_toISOString_def civil_defs iso_time_def iso_year_def digit_char_def
        show_nat.simps pad_left.simps)

text \<open>
  The rendering at known instants: the epoch, the millisecond before it, a leap day, the last
  instant of year 9999 and the first of year 10000, the instant before year 0, and the two
  ends of the range of a \<^verbatim>\<open>Date\<close>.
\<close>

lemma toISOString_known_instants:
  "Date_toISOString 0 = Some ''1970-01-01T00:00:00.000Z''"
  "Date_toISOString (- 1) = Some ''1969-12-31T23:59:59.999Z''"
  "Date_toISOString 951782400000 = Some ''2000-02-29T00:00:00.000Z''"
  "Date_toISOString 253402300799999 = Some ''9999-12-31T23:59:59.999Z''"
  "Date_toISOString 253402300800000 = Some ''+010000-01-01T00:00:00.000Z''"
  "Date_toISOString (- 62167219200001) = Some ''-000001-12-31T23:59:59.999Z''"
  "Date_toISOString 8640000000000000 = Some ''+275760-09-13T00:00:00.000Z''"
  "Date_toISOString (- 8640000000000000) = Some ''-271821-04-20T00:00:00.000Z''"
  "Date_toISOString 8640000000000001 = None"
  by (simp_all add: Date_toISOString_def civil_defs iso_time_def iso_year_def digit_char_def
        show_nat.simps pad_left.simps)

text \<open>
  C6. A payload with a negative quantity passes the payload schema, which asks for an
  integer and no more, and \<^verbatim>\<open>transform\<close> returns a record with that quantity instead of
  failing, for Marketplace A and for Marketplace B.
\<close>

theorem transform_returns_negative_quantity:
  "transform_A negative_payload_A =
     Inr \<lparr>productId = ''PROD-ABC-123'', quantity = - 1, source = marketplace_a,
          warehouseId = Some ''WH-NY-01'', updatedAt = ''2026-01-01T10:00:00Z'',
          metadata = None\<rparr> \<and>
   transform_B negative_payload_B =
     Inr \<lparr>productId = ''SKU1'', quantity = - 7, source = marketplace_b,
          warehouseId = Some ''L'', updatedAt = ''2025-01-01T00:00:00.000Z'',
          metadata = None\<rparr>"
  by (simp add: transform_A_def transform_B_def negative_payload_A_def negative_payload_B_def
        MarketplaceAPayloadSchema_def MarketplaceBPayloadSchema_def zod_defs
        toISOString_example)

section \<open>Properties of the lock service\<close>

lemma releaseLock_never_throws: "fst (releaseLock env lock ls) = Inr ()"
  by (simp add: releaseLock_def split: prod.splits sum.splits)

lemma releaseLock_calls:
  "calls (snd (releaseLock env lock ls)) = calls ls @ [Release lock]"
  by (simp add: releaseLock_def lock_release_def Let_def split: prod.splits sum.splits)

text \<open>
  C10. Once the lock is acquired, \<^verbatim>\<open>withLock\<close> calls the release exactly once, after \<open>fn\<close>,
  whether \<open>fn\<close> returned or threw and whether the release succeeds; its outcome and the
  state that \<open>fn\<close> leaves are those of \<open>fn\<close>.
\<close>

theorem withLock_outcome_is_fn_outcome:
  assumes "acquire_ok env"
  shows "fst (withLock env product fn options (ls, s)) = fst (fn s) \<and>
         snd (snd (withLock env product fn options (ls, s))) = snd (fn s) \<and>
         calls (fst (snd (withLock env product fn options (ls, s)))) =
           calls ls @ [Acquire (''lock:inventory:'' @ product),
                       Release (''lock:inventory:'' @ product)]"
proof -
  obtain result s' where fn: "fn s = (result, s')"
    by (cases "fn s")
  obtain ls' where acq:
    "acquireLock env product options ls = (Inr (''lock:inventory:'' @ product), ls')"
    "calls ls' = calls ls @ [Acquire (''lock:inventory:'' @ product)]"
    using assms by (simp add: acquireLock_def Let_def)
  obtain ls'' where rel: "releaseLock env (''lock:inventory:'' @ product) ls' = (Inr (), ls'')"
    using releaseLock_never_throws [of env "''lock:inventory:'' @ product" ls']
    by (cases "releaseLock env (''lock:inventory:'' @ product) ls'") simp
  have "calls ls'' = calls ls' @ [Release (''lock:inventory:'' @ product)]"
    using releaseLock_calls [of env "''lock:inventory:'' @ product" ls'] rel by simp
  then show ?thesis
    using fn acq rel by (simp add: withLock_def)
qed

theorem withLock_outcome_is_fn_outcome_witness:
  "acquire_ok release_fails \<and> \<not> release_ok release_fails \<and>
   fst (withLock release_fails ''PROD-X'' failing_fn defaultOptions (no_locks, 0)) =
     Inl PermanentStorage \<and>
   calls (fst (snd (withLock release_fails ''PROD-X'' failing_fn defaultOptions (no_locks, 0)))) =
     [Acquire ''lock:inventory:PROD-X'', Release ''lock:inventory:PROD-X'']"
proof -
  have h: "acquire_ok release_fails"
    by (simp add: release_fails_def)
  show ?thesis
    using h withLock_outcome_is_fn_outcome [OF h, of "''PROD-X''" failing_fn defaultOptions no_locks 0]
    by (simp add: release_fails_def failing_fn_def no_locks_def)
qed

section \<open>Properties of the queue service\<close>

lemma addInventoryUpdate_result:
  "addInventoryUpdate jobData priority q c =
     (if redis_up q
      then (Inr (source_str (source (data_inventory jobData)) @ ''-'' @
                 productId (data_inventory jobData) @ ''-'' @ show_nat (readings c (taken c))),
            q\<lparr>added := added q @
                 [\<lparr>req_data = jobData, req_priority = Some priority,
                   req_jobId = source_str (source (data_inventory jobData)) @ ''-'' @
                     productId (data_inventory jobData) @ ''-'' @
                     show_nat (readings c (taken c))\<rparr>]\<rparr>,
            c\<lparr>taken := Suc (taken c)\<rparr>)
      else (Inl QueueUnavailable, q, c\<lparr>taken := Suc (taken c)\<rparr>))"
  by (simp add: addInventoryUpdate_def Date_now_def Let_def)

lemma show_nat_same_ms: "show_nat 1700000000000 = ''1700000000000''"
  by (simp add: show_nat.simps digit_char_def)

lemma first_enqueue_value:
  "first_enqueue =
     (Inr ''marketplace_a-PROD-X-1700000000000'',
      \<lparr>added = [\<lparr>req_data = prod_x 10, req_priority = Some 0,
                  req_jobId = ''marketplace_a-PROD-X-1700000000000''\<rparr>],
       redis_up = True\<rparr>,
      \<lparr>readings = (\<lambda>n. 1700000000000), taken = 1\<rparr>)"
  by (simp add: first_enqueue_def addInventoryUpdate_result empty_queue_def same_ms_clock_def
        prod_x_def show_nat_same_ms)

text \<open>
  C9. Two webhooks for the same product and source whose jobs are enqueued in the same
  millisecond get the same job id: the id of \<^verbatim>\<open>addInventoryUpdate\<close> is made of the source,
  the product and \<^verbatim>\<open>Date.now()\<close> only.
\<close>

theorem addInventoryUpdate_same_ms_same_id:
  "fst first_enqueue = Inr ''marketplace_a-PROD-X-1700000000000'' \<and>
   fst second_enqueue = Inr ''marketplace_a-PROD-X-1700000000000'' \<and>
   map req_jobId (added (fst (snd second_enqueue))) =
     [''marketplace_a-PROD-X-1700000000000'', ''marketplace_a-PROD-X-1700000000000''] \<and>
   map (quantity \<circ> data_inventory \<circ> req_data) (added (fst (snd second_enqueue))) = [10, 20]"
  by (simp add: second_enqueue_def first_enqueue_value addInventoryUpdate_result prod_x_def
        show_nat_same_ms)

section \<open>Properties of the webhook\<close>

lemma length_digest_hex: "length (digest_hex d) = 64"
  by (simp add: digest_hex_def)

lemma digit_char_inj: "a < 16 \<Longrightarrow> b < 16 \<Longrightarrow> digit_char a = digit_char b \<Longrightarrow> a = b"
proof -
  assume a: "a < 16" and b: "b < 16" and eq: "digit_char a = digit_char b"
  have d: "distinct ''0123456789abcdef''" by simp
  have l: "length ''0123456789abcdef'' = 16" by simp
  from eq have "''0123456789abcdef'' ! a = ''0123456789abcdef'' ! b"
    using a b by (simp add: digit_char_def)
  then show "a = b"
    using d l a b nth_eq_iff_index_eq [of "''0123456789abcdef''" a b] by simp
qed

lemma nibble_eq:
  assumes "digest_hex a = digest_hex b" and "i < 64"
  shows "unat (drop_bit (4 * (63 - i)) a) mod 16 = unat (drop_bit (4 * (63 - i)) b) mod 16"
proof -
  have "digest_hex a ! i = digest_hex b ! i" using assms by simp
  then have "digit_char (unat (drop_bit (4 * (63 - i)) a) mod 16) =
             digit_char (unat (drop_bit (4 * (63 - i)) b) mod 16)"
    using assms(2) by (simp add: digest_hex_def)
  then show ?thesis by (rule digit_char_inj [rotated 2]) simp_all
qed

lemma bit_nibble:
  "j < 4 \<Longrightarrow> bit (unat (drop_bit m (w :: 256 word)) mod 16) j = bit w (m + j)"
proof -
  assume j: "j < 4"
  have "unat (drop_bit m w) mod 16 = take_bit 4 (unat (drop_bit m w))"
    by (simp add: take_bit_eq_mod)
  then show ?thesis
    using j by (simp add: bit_take_bit_iff bit_unsigned_iff bit_drop_bit_eq)
qed

lemma digest_hex_inj: "digest_hex a = digest_hex b \<Longrightarrow> a = b"
proof (rule bit_word_eqI)
  fix n assume eq: "digest_hex a = digest_hex b" and n: "n < LENGTH(256)"
  define i where "i = 63 - n div 4"
  have i: "i < 64" and m: "4 * (63 - i) + n mod 4 = n"
    using n by (simp_all add: i_def)
  have "bit (unat (drop_bit (4 * (63 - i)) a) mod 16) (n mod 4) =
        bit (unat (drop_bit (4 * (63 - i)) b) mod 16) (n mod 4)"
    using nibble_eq [OF eq i] by simp
  then have "bit a (4 * (63 - i) + n mod 4) = bit b (4 * (63 - i) + n mod 4)"
    by (simp add: bit_nibble)
  then show "bit a n = bit b n" by (simp add: m)
qed

lemma digest_hex_not_empty: "digest_hex d \<noteq> []"
  using length_digest_hex [of d] by auto

lemma validateSignature_result:
  "validateSignature hmac env_secret payload signature =
     (if length signature \<noteq> 64 then Inl RangeError
      else Inr (signature = digest_hex (hmac (secret_of env_secret) payload)))"
  by (simp add: validateSignature_def timingSafeEqual_def length_digest_hex Let_def)

text \<open>
  A request whose header is missing or is not the expected digest enqueues nothing; the
  reply is 401, except that a header of a length other than 64 is answered with 500.
\<close>

lemma handleMarketplaceA_rejects:
  assumes "x_marketplace_signature req \<noteq>
             Some (digest_hex (hmac (secret_of env_secret) (JSON_stringify (body req))))"
  shows "snd (handleMarketplaceA hmac env_secret req q c) = (q, c) \<and>
         status (fst (handleMarketplaceA hmac env_secret req q c)) =
           (case x_marketplace_signature req of
              None \<Rightarrow> 401
            | Some s \<Rightarrow> if s = [] \<or> length s = 64 then 401 else 500)"
  using assms
  by (auto simp: handleMarketplaceA_def validateSignature_result Let_def split: option.splits)

text \<open>
  C2. A signature header of the wrong length is answered with 500, not 401:
  \<^verbatim>\<open>timingSafeEqual\<close> throws on buffers of different length, and the handler's \<^verbatim>\<open>catch\<close>
  block turns that into \<^verbatim>\<open>Failed to process webhook\<close>. Nothing is enqueued.
\<close>

theorem wrong_length_signature_gets_500:
  "handleMarketplaceA hmac env_secret short_signature_request q c =
     (\<lparr>status = 500, success = False, data = None\<rparr>, q, c)"
  by (simp add: handleMarketplaceA_def validateSignature_result short_signature_request_def
        Let_def)

lemma stringify_webhook_body: "JSON_stringify webhook_body = compact_text"
  by (simp add: webhook_body_def compact_text_def quote_def escape_char_def show_int_def
        show_nat.simps digit_char_def)

lemma spaced_not_compact: "spaced_text \<noteq> compact_text"
  by (simp add: spaced_text_def compact_text_def)

lemma transform_webhook_body:
  "transform_A webhook_body =
     Inr \<lparr>productId = ''PROD-ABC-123'', quantity = 50, source = marketplace_a,
          warehouseId = Some ''WH-NY-01'', updatedAt = ''2026-01-01T10:00:00Z'',
          metadata = None\<rparr>"
  by (simp add: transform_A_def webhook_body_def MarketplaceAPayloadSchema_def zod_defs)

lemma accepted_status:
  "status (fst (case processUpdate item q c of
      (Inl e, q', c') \<Rightarrow> (\<lparr>status = 500, success = False, data = None\<rparr>, q', c')
    | (Inr jobId, q', c') \<Rightarrow>
        (\<lparr>status = 202, success = True, data = Some (jobId, p)\<rparr>, q', c'))) \<noteq> 401"
  by (simp add: processUpdate_def addInventoryUpdate_result)

text \<open>
  C1. The handler checks the header against the HMAC of \<^verbatim>\<open>JSON.stringify(req.body)\<close>, the
  compact text, not of the bytes received. A request whose body was sent with a space after
  each colon and comma, signed over exactly those bytes, is answered with 401 unless the two
  texts have the same HMAC.
\<close>

theorem signature_checked_over_reserialized_body:
  "JSON_stringify webhook_body = compact_text \<and> spaced_text \<noteq> compact_text \<and>
   (status (fst (handleMarketplaceA hmac env_secret
       (signed_request hmac env_secret spaced_text webhook_body) q c)) = 401) =
   (hmac (secret_of env_secret) spaced_text \<noteq> hmac (secret_of env_secret) compact_text)"
proof -
  let ?d = "digest_hex (hmac (secret_of env_secret) spaced_text)"
  let ?e = "digest_hex (hmac (secret_of env_secret) compact_text)"
  have eq: "(?d = ?e) = (hmac (secret_of env_secret) spaced_text =
                         hmac (secret_of env_secret) compact_text)"
    using digest_hex_inj by auto
  have "status (fst (handleMarketplaceA hmac env_secret
          (signed_request hmac env_secret spaced_text webhook_body) q c)) = 401
        \<longleftrightarrow> ?d \<noteq> ?e"
  proof (cases "?d = ?e")
    case True
    then show ?thesis
      by (simp add: handleMarketplaceA_def signed_request_def validateSignature_result
            length_digest_hex digest_hex_not_empty stringify_webhook_body
            transform_webhook_body accepted_status Let_def)
  next
    case False
    then show ?thesis
      by (simp add: handleMarketplaceA_def signed_request_def validateSignature_result
            length_digest_hex digest_hex_not_empty stringify_webhook_body Let_def)
  qed
  then show ?thesis
    using eq stringify_webhook_body spaced_not_compact by simp
qed

section \<open>Properties of the worker\<close>

lemma processJob_is_try: "processJob env job st = processJob_try env job st"
  by (simp add: processJob_def split: prod.splits sum.splits)

lemma run_attempt_outcome:
  "fst (run_attempt env job st) = after_attempt job (fst (processJob env job st))"
  by (simp add: run_attempt_def split: prod.splits)

lemmas lock_defs = withLock_def acquireLock_def releaseLock_def lock_release_def

lemma executeUpdate_negative_job:
  "executeUpdate (worker_lock healthy_worker) (worker_db healthy_worker)
     (data_inventory (job_data negative_job)) (no_locks, empty_database) =
   (Inl PermanentStorage,
    \<lparr>held = [],
     calls = [Acquire ''lock:inventory:PROD-ABC-123'', Release ''lock:inventory:PROD-ABC-123'']\<rparr>,
    empty_database)"
  by (simp add: executeUpdate_def lock_defs upsert_def violates_constraint_def healthy_worker_def
        negative_job_def no_fault_def no_locks_def Let_def)

text \<open>
  C3, as the claim states it, fails: a job whose upsert violates \<^verbatim>\<open>CHECK (quantity >= 0)\<close>
  (PermanentStorage) is thrown back to the queue, which schedules the second attempt after
  2000 ms; the job is not marked failed.
\<close>

theorem permanent_error_is_retried:
  "fst (processJob healthy_worker negative_job (no_locks, empty_database)) = Inl PermanentStorage \<and>
   fst (run_attempt healthy_worker negative_job (no_locks, empty_database)) = Delayed 2000 \<and>
   fst (run_attempt healthy_worker negative_job (no_locks, empty_database)) \<noteq> Failed"
  using executeUpdate_negative_job
  by (simp add: run_attempt_def processJob_is_try processJob_try_def after_attempt_def
        attempts_def backoff_delay_def healthy_worker_def negative_job_def Let_def)

text \<open>
  C3, amended. Whatever error the update fails with, \<^verbatim>\<open>processJob\<close> throws that error to the
  queue; the queue delays the job for another attempt (2000 ms doubled with every attempt
  made) while fewer than 5 attempts were made, and marks it failed after the fifth.
\<close>

theorem worker_rethrows_every_error:
  assumes "progress_ok env 10"
    and "fst (executeUpdate (worker_lock env) (worker_db env) (data_inventory (job_data job)) st)
           = Inl e"
  shows "fst (processJob env job st) = Inl e \<and>
         fst (run_attempt env job st) =
           (if Suc (attemptsMade job) < attempts
            then Delayed (backoff_delay * 2 ^ attemptsMade job) else Failed)"
proof -
  obtain st' where
    "executeUpdate (worker_lock env) (worker_db env) (data_inventory (job_data job)) st
       = (Inl e, st')"
    using assms(2)
    by (cases "executeUpdate (worker_lock env) (worker_db env) (data_inventory (job_data job)) st")
      simp
  then have "fst (processJob env job st) = Inl e"
    using assms(1) by (simp add: processJob_is_try processJob_try_def Let_def)
  then show ?thesis
    by (simp add: run_attempt_outcome after_attempt_def)
qed

theorem worker_rethrows_every_error_witness:
  "progress_ok flaky_database_worker 10 \<and>
   fst (executeUpdate (worker_lock flaky_database_worker) (worker_db flaky_database_worker)
          (data_inventory (job_data second_attempt_job)) (no_locks, empty_database))
     = Inl TransientStorage \<and>
   fst (processJob flaky_database_worker second_attempt_job (no_locks, empty_database))
     = Inl TransientStorage \<and>
   fst (run_attempt flaky_database_worker second_attempt_job (no_locks, empty_database))
     = Delayed 4000"
proof -
  have p: "progress_ok flaky_database_worker 10"
    by (simp add: flaky_database_worker_def)
  have x: "fst (executeUpdate (worker_lock flaky_database_worker)
                  (worker_db flaky_database_worker)
                  (data_inventory (job_data second_attempt_job)) (no_locks, empty_database))
             = Inl TransientStorage"
    by (simp add: executeUpdate_def lock_defs upsert_def flaky_database_worker_def Let_def)
  show ?thesis
    using p x worker_rethrows_every_error [OF p x]
    by (simp add: second_attempt_job_def attempts_def backoff_delay_def)
qed

section \<open>Properties of the polling service\<close>

lemma batch_jobs_clock:
  "readings (snd (batch_jobs updates index c)) = readings c \<and>
   taken (snd (batch_jobs updates index c)) = taken c + length updates"
  by (induction updates arbitrary: index c) (simp_all add: Date_now_def split_def Let_def)

lemma addBatch_clock:
  "readings (snd (snd (addBatch updates q c))) = readings c \<and>
   taken (snd (snd (addBatch updates q c))) = taken c + length updates"
  using batch_jobs_clock [of updates 0 c] by (simp add: addBatch_def split_def Let_def)

lemma processBatch_clock:
  "readings (snd (snd (processBatch items q c))) = readings c \<and>
   taken (snd (snd (processBatch items q c))) = taken c + length items"
  using addBatch_clock [of "map (\<lambda>item. \<lparr>data_inventory = item, retryCount = Some 0\<rparr>) items" q c]
  by (simp add: processBatch_def)

lemma getLastProcessedTimestamp_state:
  "readings (clk (snd (getLastProcessedTimestamp env st))) = readings (clk st) \<and>
   last_timestamp (snd (getLastProcessedTimestamp env st)) = last_timestamp st"
  by (simp add: getLastProcessedTimestamp_def Date_now_def split: option.splits)

lemma updateLastProcessedTimestamp_written:
  "updateLastProcessedTimestamp env st = (Inr u, st') \<Longrightarrow>
   last_timestamp st' = Some (show_nat (readings (clk st) (taken (clk st)) div 1000)) \<and>
   readings (clk st') = readings (clk st) \<and> taken (clk st') = Suc (taken (clk st))"
  by (auto simp: updateLastProcessedTimestamp_def Date_now_def Let_def split: if_splits)

lemma poll_try_cursor:
  assumes "poll_try env st = (Inr outcome, st')"
  shows "(outcome = NoUpdates \<longrightarrow> last_timestamp st' = last_timestamp st) \<and>
         (\<forall>n. outcome = Processed n \<longrightarrow>
            last_timestamp st' =
              Some (show_nat (readings (clk st) (taken (clk st') - 1) div 1000)))"
proof -
  obtain r1 st1 where g: "getLastProcessedTimestamp env st = (r1, st1)"
    by (cases "getLastProcessedTimestamp env st")
  have g1: "readings (clk st1) = readings (clk st)" "last_timestamp st1 = last_timestamp st"
    using getLastProcessedTimestamp_state [of env st] g by simp_all
  show ?thesis
  proof (cases r1)
    case (Inl e)
    then show ?thesis using assms g by (simp add: poll_try_def)
  next
    case (Inr lastTimestamp)
    note r1 = this
    show ?thesis
    proof (cases "fetchUpdates env lastTimestamp")
      case (Inl e)
      then show ?thesis using assms g r1 by (simp add: poll_try_def)
    next
      case (Inr updates)
      note f = this
      show ?thesis
      proof (cases "length updates = 0")
        case True
        then show ?thesis using assms g r1 f g1 by (auto simp: poll_try_def)
      next
        case False
        obtain r2 q c where p: "processBatch (transformBatch updates) (queue st1) (clk st1) = (r2, q, c)"
          by (cases "processBatch (transformBatch updates) (queue st1) (clk st1)")
        have c: "readings c = readings (clk st)"
          using processBatch_clock [of "transformBatch updates" "queue st1" "clk st1"] p g1 by simp
        show ?thesis
        proof (cases r2)
          case (Inl e)
          then show ?thesis using assms g r1 f False p by (simp add: poll_try_def Let_def)
        next
          case (Inr u)
          note r2 = this
          obtain r3 st2 where w:
            "updateLastProcessedTimestamp env (st1\<lparr>queue := q, clk := c\<rparr>) = (r3, st2)"
            by (cases "updateLastProcessedTimestamp env (st1\<lparr>queue := q, clk := c\<rparr>)")
          show ?thesis
          proof (cases r3)
            case (Inl e)
            then show ?thesis using assms g r1 f False p r2 w by (simp add: poll_try_def Let_def)
          next
            case (Inr u')
            then have w': "updateLastProcessedTimestamp env (st1\<lparr>queue := q, clk := c\<rparr>) = (Inr u', st2)"
              using w by simp
            have "last_timestamp st2 = Some (show_nat (readings c (taken c) div 1000))"
              and "taken (clk st2) = Suc (taken c)"
              using updateLastProcessedTimestamp_written [OF w'] by simp_all
            moreover have "st' = st2\<lparr>consecutiveFailures := 0\<rparr>"
              and "outcome = Processed (length (transformBatch updates))"
              using assms g r1 f False p r2 w' by (simp_all add: poll_try_def Let_def)
            ultimately show ?thesis using c by simp
          qed
        qed
      qed
    qed
  qed
qed

lemma transformBatch_sku1:
  "transformBatch [sku1_payload] =
     [\<lparr>productId = ''SKU1'', quantity = 7, source = marketplace_b, warehouseId = Some ''L'',
       updatedAt = ''2025-01-01T00:00:00.000Z'', metadata = None\<rparr>]"
  by (simp add: transformBatch_def transform_B_def sku1_payload_def MarketplaceBPayloadSchema_def
        zod_defs toISOString_example)

lemma processBatch_outcome:
  "fst (processBatch items q c) = (if redis_up q then Inr () else Inl QueueUnavailable)"
  by (simp add: processBatch_def addBatch_def split_def Let_def)

lemma poll_empty_feed:
  "poll empty_feed idle_poller =
     (NoUpdates, idle_poller\<lparr>clk := ticking_clock\<lparr>taken := 1\<rparr>\<rparr>)"
  by (simp add: poll_def poll_try_def getLastProcessedTimestamp_def fetchUpdates_def
        Date_now_def MAX_FAILURES_def empty_feed_def idle_poller_def ticking_clock_def)

lemma show_nat_cursor: "show_nat 1767261604 = ''1767261604''"
  by (simp add: show_nat.simps digit_char_def)

lemma poll_sku1_feed:
  "fst (poll sku1_feed idle_poller) = Processed 1 \<and>
   last_timestamp (snd (poll sku1_feed idle_poller)) = Some ''1767261604'' \<and>
   taken (clk (snd (poll sku1_feed idle_poller))) = 3 \<and>
   length (added (queue (snd (poll sku1_feed idle_poller)))) = 1"
proof -
  let ?st1 = "idle_poller\<lparr>isRunning := True, clk := ticking_clock\<lparr>taken := 1\<rparr>\<rparr>"
  define q where "q = fst (snd (processBatch (transformBatch [sku1_payload]) (queue ?st1) (clk ?st1)))"
  define c where "c = snd (snd (processBatch (transformBatch [sku1_payload]) (queue ?st1) (clk ?st1)))"
  have g: "getLastProcessedTimestamp sku1_feed (idle_poller\<lparr>isRunning := True\<rparr>) =
             (Inr (Some 1767258000), ?st1)"
    by (simp add: getLastProcessedTimestamp_def Date_now_def sku1_feed_def idle_poller_def
          ticking_clock_def)
  have f: "fetchUpdates sku1_feed (Some 1767258000) = Inr [sku1_payload]"
    by (simp add: fetchUpdates_def sku1_feed_def)
  have "fst (processBatch (transformBatch [sku1_payload]) (queue ?st1) (clk ?st1)) = Inr ()"
    by (simp add: processBatch_outcome idle_poller_def empty_queue_def)
  then have p:
    "processBatch (transformBatch [sku1_payload]) (queue ?st1) (clk ?st1) = (Inr (), q, c)"
    by (simp add: q_def c_def prod_eq_iff)
  have c: "readings c = readings ticking_clock" "taken c = 2"
    using processBatch_clock [of "transformBatch [sku1_payload]" "queue ?st1" "clk ?st1"]
    by (simp_all add: c_def transformBatch_sku1)
  have q: "length (added q) = 1"
    by (simp add: q_def processBatch_def addBatch_def split_def Let_def transformBatch_sku1
          idle_poller_def empty_queue_def)
  have w: "updateLastProcessedTimestamp sku1_feed (?st1\<lparr>queue := q, clk := c\<rparr>) =
             (Inr (), ?st1\<lparr>queue := q, clk := c\<lparr>taken := 3\<rparr>,
                          last_timestamp := Some ''1767261604''\<rparr>)"
    using c
    by (simp add: updateLastProcessedTimestamp_def Date_now_def sku1_feed_def ticking_clock_def
          show_nat_cursor Let_def)
  have "poll_try sku1_feed (idle_poller\<lparr>isRunning := True\<rparr>) =
          (Inr (Processed 1),
           ?st1\<lparr>queue := q, clk := c\<lparr>taken := 3\<rparr>, last_timestamp := Some ''1767261604'',
                 consecutiveFailures := 0\<rparr>)"
    using g f p w by (simp add: poll_try_def transformBatch_sku1 Let_def)
  moreover have "\<not> isRunning idle_poller" "\<not> consecutiveFailures idle_poller \<ge> MAX_FAILURES"
    by (simp_all add: idle_poller_def MAX_FAILURES_def)
  ultimately show ?thesis
    using q by (simp add: poll_def)
qed

lemma cycle_start: "fst (Date_now (clk idle_poller)) div 1000 = 1767261600"
  by (simp add: Date_now_def idle_poller_def ticking_clock_def)

text \<open>
  C5, as the claim states it, fails twice. A cycle that fetches an empty list completes
  without error and does not write the cursor: \<^verbatim>\<open>poll\<close> returns before
  \<^verbatim>\<open>updateLastProcessedTimestamp\<close>. And a cycle that starts at second 1767261600 and
  writes the cursor four seconds later writes 1767261604, the time of the write.
\<close>

theorem empty_cycle_writes_no_cursor:
  "fst (poll empty_feed idle_poller) = NoUpdates \<and>
   last_timestamp (snd (poll empty_feed idle_poller)) = None \<and>
   fst (Date_now (clk idle_poller)) div 1000 = 1767261600 \<and>
   fst (poll sku1_feed idle_poller) = Processed 1 \<and>
   last_timestamp (snd (poll sku1_feed idle_poller)) = Some ''1767261604''"
proof -
  have "last_timestamp (snd (poll empty_feed idle_poller)) = None"
    unfolding poll_empty_feed by (simp add: idle_poller_def)
  then show ?thesis
    using poll_sku1_feed cycle_start by (simp add: poll_empty_feed)
qed

lemma getLastProcessedTimestamp_running:
  "getLastProcessedTimestamp env (st\<lparr>isRunning := b\<rparr>) =
     (fst (getLastProcessedTimestamp env st),
      (snd (getLastProcessedTimestamp env st))\<lparr>isRunning := b\<rparr>)"
  by (simp add: getLastProcessedTimestamp_def split_def split: option.splits)

lemma getLastProcessedTimestamp_queue:
  "queue (snd (getLastProcessedTimestamp env st)) = queue st"
  by (simp add: getLastProcessedTimestamp_def split_def split: option.splits)

lemma batch_jobs_length: "length (fst (batch_jobs updates index c)) = length updates"
  by (induction updates arbitrary: index c) (simp_all add: split_def Let_def)

lemma processBatch_added:
  "redis_up q \<Longrightarrow>
   length (added (fst (snd (processBatch items q c)))) = length (added q) + length items"
  using batch_jobs_length [of "map (\<lambda>item. \<lparr>data_inventory = item, retryCount = Some 0\<rparr>) items" 0 c]
  by (simp add: processBatch_def addBatch_def split_def Let_def)

lemma poll_try_empty:
  assumes "getLastProcessedTimestamp env st = (Inr since, st1)"
    and "fetchUpdates env since = Inr []"
  shows "poll_try env st = (Inr NoUpdates, st1\<lparr>consecutiveFailures := 0\<rparr>)"
  using assms by (simp add: poll_try_def)

lemma poll_try_nonempty:
  assumes g: "getLastProcessedTimestamp env st = (Inr since, st1)"
    and f: "fetchUpdates env since = Inr updates"
    and n: "updates \<noteq> []"
    and up: "redis_up (queue st)" "store_set_ok env"
  shows "fst (poll_try env st) = Inr (Processed (length (transformBatch updates))) \<and>
         last_timestamp (snd (poll_try env st)) =
           Some (show_nat (readings (clk st)
                   (taken (clk st1) + length (transformBatch updates)) div 1000)) \<and>
         taken (clk (snd (poll_try env st))) =
           Suc (taken (clk st1) + length (transformBatch updates)) \<and>
         length (added (queue (snd (poll_try env st)))) =
           length (added (queue st)) + length (transformBatch updates) \<and>
         isRunning (snd (poll_try env st)) = isRunning st1"
proof -
  let ?items = "transformBatch updates"
  define q where "q = fst (snd (processBatch ?items (queue st1) (clk st1)))"
  define c where "c = snd (snd (processBatch ?items (queue st1) (clk st1)))"
  have g1: "readings (clk st1) = readings (clk st)" "queue st1 = queue st"
    using getLastProcessedTimestamp_state [of env st] getLastProcessedTimestamp_queue [of env st] g
    by simp_all
  have "fst (processBatch ?items (queue st1) (clk st1)) = Inr ()"
    using up g1 by (simp add: processBatch_outcome)
  then have p: "processBatch ?items (queue st1) (clk st1) = (Inr (), q, c)"
    by (simp add: q_def c_def prod_eq_iff)
  have c: "readings c = readings (clk st)" "taken c = taken (clk st1) + length ?items"
    using processBatch_clock [of ?items "queue st1" "clk st1"] g1 by (simp_all add: c_def)
  have q: "length (added q) = length (added (queue st)) + length ?items"
    using processBatch_added [of "queue st1" ?items "clk st1"] up g1 by (simp add: q_def)
  have "poll_try env st =
          (Inr (Processed (length ?items)),
           st1\<lparr>queue := q, clk := c\<lparr>taken := Suc (taken c)\<rparr>,
                last_timestamp := Some (show_nat (readings c (taken c) div 1000)),
                consecutiveFailures := 0\<rparr>)"
    using g f n p up
    by (simp add: poll_try_def updateLastProcessedTimestamp_def Date_now_def Let_def)
  then show ?thesis
    using c q by simp
qed

text \<open>
  C5, amended. Take a cycle that runs (no other cycle in progress, circuit closed), whose
  cursor read succeeds and whose fetch returns the list \<open>updates\<close>. If \<open>updates\<close> is empty,
  the cycle ends as \<^verbatim>\<open>No new updates\<close> and the cursor is the one it was. If \<open>updates\<close> has
  at least one item and the queue and the shared store are up, the cycle completes, one job
  is enqueued for each item that transforms, and the cursor is written: its value is the
  Unix second of the last clock reading of the cycle, the one taken in
  \<^verbatim>\<open>updateLastProcessedTimestamp\<close> after the cursor read and after one reading for each
  enqueued job.
\<close>

theorem poll_writes_cursor_after_enqueue:
  assumes "\<not> isRunning st" and "consecutiveFailures st < MAX_FAILURES"
    and "getLastProcessedTimestamp env st = (Inr since, st1)"
    and "fetchUpdates env since = Inr updates"
  shows "(updates = [] \<longrightarrow>
            fst (poll env st) = NoUpdates \<and>
            last_timestamp (snd (poll env st)) = last_timestamp st) \<and>
         (updates \<noteq> [] \<and> redis_up (queue st) \<and> store_set_ok env \<longrightarrow>
            fst (poll env st) = Processed (length (transformBatch updates)) \<and>
            last_timestamp (snd (poll env st)) =
              Some (show_nat (readings (clk st)
                      (taken (clk st1) + length (transformBatch updates)) div 1000)) \<and>
            taken (clk (snd (poll env st))) =
              Suc (taken (clk st1) + length (transformBatch updates)) \<and>
            length (added (queue (snd (poll env st)))) =
              length (added (queue st)) + length (transformBatch updates))"
proof -
  let ?st = "st\<lparr>isRunning := True\<rparr>"
  have g: "getLastProcessedTimestamp env ?st = (Inr since, st1\<lparr>isRunning := True\<rparr>)"
    using assms(3) by (simp add: getLastProcessedTimestamp_running)
  have l: "last_timestamp st1 = last_timestamp st"
    using getLastProcessedTimestamp_state [of env st] assms(3) by simp
  have p: "poll env st =
             (case poll_try env ?st of
                (Inl e, st') \<Rightarrow>
                  (PollFailed e,
                   st'\<lparr>consecutiveFailures := Suc (consecutiveFailures st'), isRunning := False\<rparr>)
              | (Inr outcome, st') \<Rightarrow> (outcome, st'\<lparr>isRunning := False\<rparr>))"
    using assms(1,2) by (simp add: poll_def)
  have a: "fst (poll env st) = NoUpdates \<and>
           last_timestamp (snd (poll env st)) = last_timestamp st" if "updates = []"
    using poll_try_empty [OF g] assms(4) that l by (simp add: p)
  have b: "fst (poll env st) = Processed (length (transformBatch updates)) \<and>
           last_timestamp (snd (poll env st)) =
             Some (show_nat (readings (clk st)
                     (taken (clk st1) + length (transformBatch updates)) div 1000)) \<and>
           taken (clk (snd (poll env st))) =
             Suc (taken (clk st1) + length (transformBatch updates)) \<and>
           length (added (queue (snd (poll env st)))) =
             length (added (queue st)) + length (transformBatch updates)"
    if "updates \<noteq> []" "redis_up (queue st)" "store_set_ok env"
  proof -
    obtain r st' where t: "poll_try env ?st = (r, st')"
      by (cases "poll_try env ?st")
    have "r = Inr (Processed (length (transformBatch updates)))"
      and "last_timestamp st' =
             Some (show_nat (readings (clk st)
                     (taken (clk st1) + length (transformBatch updates)) div 1000))"
      and "taken (clk st') = Suc (taken (clk st1) + length (transformBatch updates))"
      and "length (added (queue st')) = length (added (queue st)) + length (transformBatch updates)"
      using poll_try_nonempty [OF g assms(4) that(1)] that(2,3) t by simp_all
    then show ?thesis
      by (simp add: p t)
  qed
  show ?thesis
    using a b by blast
qed


theorem poll_writes_cursor_after_enqueue_witness:
  "\<not> isRunning idle_poller \<and> consecutiveFailures idle_poller < MAX_FAILURES \<and>
   getLastProcessedTimestamp sku1_feed idle_poller =
     (Inr (Some 1767258000), idle_poller\<lparr>clk := ticking_clock\<lparr>taken := 1\<rparr>\<rparr>) \<and>
   fetchUpdates sku1_feed (Some 1767258000) = Inr [sku1_payload] \<and>
   redis_up (queue idle_poller) \<and> store_set_ok sku1_feed \<and>
   fst (poll sku1_feed idle_poller) = Processed 1 \<and>
   last_timestamp (snd (poll sku1_feed idle_poller)) = Some ''1767261604'' \<and>
   taken (clk (snd (poll sku1_feed idle_poller))) = 3 \<and>
   length (added (queue (snd (poll sku1_feed idle_poller)))) = 1 \<and>
   getLastProcessedTimestamp empty_feed idle_poller =
     (Inr (Some 1767258000), idle_poller\<lparr>clk := ticking_clock\<lparr>taken := 1\<rparr>\<rparr>) \<and>
   fetchUpdates empty_feed (Some 1767258000) = Inr [] \<and>
   fst (poll empty_feed idle_poller) = NoUpdates \<and>
   last_timestamp (snd (poll empty_feed idle_poller)) = None"
proof -
  let ?st1 = "idle_poller\<lparr>clk := ticking_clock\<lparr>taken := 1\<rparr>\<rparr>"
  have h1: "\<not> isRunning idle_poller"
    by (simp add: idle_poller_def)
  have h2: "consecutiveFailures idle_poller < MAX_FAILURES"
    by (simp add: idle_poller_def MAX_FAILURES_def)
  have g: "getLastProcessedTimestamp sku1_feed idle_poller = (Inr (Some 1767258000), ?st1)"
    by (simp add: getLastProcessedTimestamp_def Date_now_def sku1_feed_def idle_poller_def
          ticking_clock_def)
  have f: "fetchUpdates sku1_feed (Some 1767258000) = Inr [sku1_payload]"
    by (simp add: fetchUpdates_def sku1_feed_def)
  have up: "redis_up (queue idle_poller)" "store_set_ok sku1_feed"
    by (simp_all add: idle_poller_def empty_queue_def sku1_feed_def)
  have pre: "[sku1_payload] \<noteq> [] \<and> redis_up (queue idle_poller) \<and> store_set_ok sku1_feed"
    using up by simp
  have g': "getLastProcessedTimestamp empty_feed idle_poller = (Inr (Some 1767258000), ?st1)"
    by (simp add: getLastProcessedTimestamp_def Date_now_def empty_feed_def idle_poller_def
          ticking_clock_def)
  have f': "fetchUpdates empty_feed (Some 1767258000) = Inr []"
    by (simp add: fetchUpdates_def empty_feed_def)
  have n: "length (transformBatch [sku1_payload]) = 1"
    by (simp add: transformBatch_sku1)
  have r: "show_nat (readings (clk idle_poller) (Suc (Suc 0)) div 1000) = ''1767261604''"
    by (simp add: idle_poller_def ticking_clock_def show_nat_cursor)
  have e: "length (added (queue idle_poller)) = 0" "last_timestamp idle_poller = None"
    by (simp_all add: idle_poller_def empty_queue_def)
  have "fst (poll sku1_feed idle_poller) = Processed 1 \<and>
        last_timestamp (snd (poll sku1_feed idle_poller)) = Some ''1767261604'' \<and>
        taken (clk (snd (poll sku1_feed idle_poller))) = 3 \<and>
        length (added (queue (snd (poll sku1_feed idle_poller)))) = 1"
    using poll_writes_cursor_after_enqueue [OF h1 h2 g f, THEN conjunct2, THEN mp, OF pre]
    by (simp add: n r e)
  moreover have "fst (poll empty_feed idle_poller) = NoUpdates \<and>
        last_timestamp (snd (poll empty_feed idle_poller)) = None"
    using poll_writes_cursor_after_enqueue [OF h1 h2 g' f', THEN conjunct1]
    by (simp add: e)
  ultimately show ?thesis
    using h1 h2 g f up g' f' by blast
qed

text \<open>
  A cycle that fetched at least one item fails exactly when the queue or the shared store
  is down, and then the stored cursor is the one it read.
\<close>

lemma poll_fails_without_queue_or_store:
  assumes "\<not> isRunning st" and "consecutiveFailures st < MAX_FAILURES"
    and "getLastProcessedTimestamp env st = (Inr since, st1)"
    and "fetchUpdates env since = Inr updates"
    and "updates \<noteq> []"
    and "\<not> redis_up (queue st) \<or> \<not> store_set_ok env"
  shows "(\<exists>e. fst (poll env st) = PollFailed e) \<and>
         last_timestamp (snd (poll env st)) = last_timestamp st"
proof -
  let ?st = "st\<lparr>isRunning := True\<rparr>"
  have g: "getLastProcessedTimestamp env ?st = (Inr since, st1\<lparr>isRunning := True\<rparr>)"
    using assms(3) by (simp add: getLastProcessedTimestamp_running)
  have l: "last_timestamp st1 = last_timestamp st" "queue st1 = queue st"
    using getLastProcessedTimestamp_state [of env st] getLastProcessedTimestamp_queue [of env st]
      assms(3) by simp_all
  show ?thesis
    using assms(1,2,4,5,6) g l
    by (auto simp: poll_def poll_try_def processBatch_def addBatch_def
          updateLastProcessedTimestamp_def Date_now_def split_def Let_def)
qed

section \<open>Properties of the Marketplace B adapter\<close>

text \<open>
  C7, as the claim states it, fails at the edge of the date range: a payload that passes the
  schema with \<open>last_modified = 8640000000001\<close> has no rendering (\<^verbatim>\<open>toISOString\<close> throws on
  an instant beyond 8.64e15 ms), and \<^verbatim>\<open>transform\<close> fails instead of returning a record.
\<close>

theorem transform_B_fails_beyond_date_range:
  "MarketplaceBPayloadSchema far_future_payload =
     Some \<lparr>sku = ''SKU1'', qty = 7, location_id = Some ''L'', last_modified = 8640000000001,
           additional_info = None\<rparr> \<and>
   transform_B far_future_payload = Inl BadPayload"
  by (simp add: transform_B_def far_future_payload_def MarketplaceBPayloadSchema_def zod_defs
        Date_toISOString_def)

text \<open>
  C7, amended. For every payload that passes the schema and whose \<open>last_modified * 1000\<close> is
  within 8.64e15 ms of the epoch, \<^verbatim>\<open>transform\<close> returns the record with
  \<open>productId = sku\<close>, \<open>quantity = qty\<close>, \<open>warehouseId = location_id\<close>,
  \<open>metadata = additional_info\<close>, \<open>source = marketplace_b\<close>, and \<open>updatedAt\<close> the
  \<^verbatim>\<open>toISOString\<close> rendering of \<open>last_modified * 1000\<close> milliseconds.
\<close>

theorem transform_B_maps_fields:
  assumes "MarketplaceBPayloadSchema payload = Some v"
    and "\<bar>last_modified v * 1000\<bar> \<le> 8640000000000000"
  shows "\<exists>stamp. Date_toISOString (last_modified v * 1000) = Some stamp \<and>
           transform_B payload =
             Inr \<lparr>productId = sku v, quantity = qty v, source = marketplace_b,
                  warehouseId = location_id v, updatedAt = stamp,
                  metadata = additional_info v\<rparr>"
  using assms by (simp add: transform_B_def Date_toISOString_def)

theorem transform_B_maps_fields_witness:
  "MarketplaceBPayloadSchema sku1_payload =
     Some \<lparr>sku = ''SKU1'', qty = 7, location_id = Some ''L'', last_modified = 1735689600,
           additional_info = None\<rparr> \<and>
   \<bar>(1735689600 :: int) * 1000\<bar> \<le> 8640000000000000 \<and>
   Date_toISOString (1735689600 * 1000) = Some ''2025-01-01T00:00:00.000Z'' \<and>
   transform_B sku1_payload =
     Inr \<lparr>productId = ''SKU1'', quantity = 7, source = marketplace_b, warehouseId = Some ''L'',
          updatedAt = ''2025-01-01T00:00:00.000Z'', metadata = None\<rparr>"
proof -
  let ?v = "\<lparr>sku = ''SKU1'', qty = 7, location_id = Some ''L'', last_modified = 1735689600,
             additional_info = None\<rparr>"
  have s: "MarketplaceBPayloadSchema sku1_payload = Some ?v"
    by (simp add: sku1_payload_def MarketplaceBPayloadSchema_def zod_defs)
  have b: "\<bar>last_modified ?v * 1000\<bar> \<le> 8640000000000000"
    by simp
  have d: "Date_toISOString (1735689600 * 1000) = Some ''2025-01-01T00:00:00.000Z''"
    using toISOString_example by simp
  show ?thesis
    using s d transform_B_maps_fields [OF s b] by simp
qed

section \<open>Properties of the printed numbers\<close>

lemma show_nat_small: "n < 10 \<Longrightarrow> show_nat n = [digit_char n]"
  by (subst show_nat.simps) simp

lemma show_nat_large:
  "\<not> n < 10 \<Longrightarrow> show_nat n = show_nat (n div 10) @ [digit_char (n mod 10)]"
  by (subst show_nat.simps) simp

lemma decimal_digits:
  "list_all (\<lambda>d. hex_value (digit_char d) = Some d \<and> digit_char d \<noteq> CHR ''-'')
     [0, 1, 2, 3, 4, 5, 6, 7, 8, 9]"
  by (simp add: hex_value_def digit_char_def)

lemma below_ten: "(d::nat) < 10 \<Longrightarrow> d \<in> set [0, 1, 2, 3, 4, 5, 6, 7, 8, 9]"
  by simp arith

lemma hex_value_digit_char: "d < 10 \<Longrightarrow> hex_value (digit_char d) = Some d"
  using decimal_digits below_ten [of d] unfolding list_all_iff by blast

lemma digit_char_not_dash: "d < 10 \<Longrightarrow> digit_char d \<noteq> CHR ''-''"
  using decimal_digits below_ten [of d] unfolding list_all_iff by blast

lemma digits_value_snoc:
  "digits_value r (ds @ [c]) =
     r * digits_value r ds + (case hex_value c of None \<Rightarrow> 0 | Some v \<Rightarrow> v)"
  by (simp add: digits_value_def)

lemma digits_value_show_nat: "digits_value 10 (show_nat n) = n"
proof (induction n rule: show_nat.induct)
  case (1 n)
  show ?case
  proof (cases "n < 10")
    case True
    then show ?thesis
      by (simp add: show_nat_small digits_value_def hex_value_digit_char)
  next
    case False
    then have "digits_value 10 (show_nat (n div 10)) = n div 10"
      using 1 by simp
    then show ?thesis
      using False by (simp add: show_nat_large digits_value_snoc hex_value_digit_char)
  qed
qed


lemma show_nat_inj: "show_nat a = show_nat b \<Longrightarrow> a = b"
  by (metis digits_value_show_nat)

lemma show_nat_no_dash: "CHR ''-'' \<notin> set (show_nat n)"
proof (induction n rule: show_nat.induct)
  case (1 n)
  show ?case
  proof (cases "n < 10")
    case True
    then show ?thesis
      using digit_char_not_dash [of n] by (simp add: show_nat_small)
  next
    case False
    then have "CHR ''-'' \<notin> set (show_nat (n div 10))"
      using 1 by simp
    then show ?thesis
      using False digit_char_not_dash [of "n mod 10"] by (simp add: show_nat_large)
  qed
qed

text \<open>
  The entries of one \<^verbatim>\<open>addBatch\<close> call have pairwise different job ids: an id ends with
  \<^verbatim>\<open>-\<close> and the index of its entry, and the digits of the index contain no \<^verbatim>\<open>-\<close>.
\<close>

lemma takeWhile_until:
  "x \<notin> set xs \<Longrightarrow> takeWhile (\<lambda>c. c \<noteq> x) (xs @ x # ys) = xs"
  by (induction xs) auto

lemma index_of_jobId:
  "digits_value 10 (rev (takeWhile (\<lambda>c. c \<noteq> CHR ''-'') (rev (p @ ''-'' @ show_nat k)))) = k"
proof -
  have "takeWhile (\<lambda>c. c \<noteq> CHR ''-'') (rev (show_nat k) @ CHR ''-'' # rev p) = rev (show_nat k)"
    using show_nat_no_dash [of k] by (simp add: takeWhile_until)
  then show ?thesis
    by (simp add: digits_value_show_nat)
qed

lemma index_of_last_field: "index_of (p @ CHR ''-'' # show_nat k) = k"
  unfolding index_of_def using index_of_jobId [of p k] by simp

lemma index_of_three_fields:
  "index_of (a @ CHR ''-'' # b @ CHR ''-'' # t @ CHR ''-'' # show_nat k) = k"
  using index_of_last_field [of "a @ CHR ''-'' # b @ CHR ''-'' # t" k] by simp

lemma batch_jobs_Cons:
  "fst (batch_jobs (entry # updates) index c) =
     \<lparr>req_data = entry, req_priority = None,
      req_jobId = (source_str (source (data_inventory entry)) @ ''-'' @
                   productId (data_inventory entry) @ ''-'' @
                   show_nat (readings c (taken c))) @ ''-'' @ show_nat index\<rparr> #
     fst (batch_jobs updates (Suc index) (c\<lparr>taken := Suc (taken c)\<rparr>))"
  by (simp add: Date_now_def split_def Let_def)

lemma batch_jobs_indexes:
  "map index_of (map req_jobId (fst (batch_jobs updates index c))) =
     [index..<index + length updates]"
proof (induction updates arbitrary: index c)
  case Nil
  then show ?case by simp
next
  case (Cons entry updates)
  have u: "[index..<index + length (entry # updates)] =
          index # [Suc index..<Suc index + length updates]"
    by (subst upt_rec) simp
  have "map index_of (map req_jobId (fst (batch_jobs (entry # updates) index c))) =
          index # map index_of (map req_jobId
            (fst (batch_jobs updates (Suc index) (c\<lparr>taken := Suc (taken c)\<rparr>))))"
    unfolding batch_jobs_Cons by (simp add: index_of_three_fields)
  then show ?case
    unfolding u using Cons.IH [of "Suc index" "c\<lparr>taken := Suc (taken c)\<rparr>"] by simp
qed

lemma addBatch_ids_distinct:
  "distinct (map req_jobId (fst (batch_jobs updates index c)))"
proof -
  have "distinct (map index_of (map req_jobId (fst (batch_jobs updates index c))))"
    unfolding batch_jobs_indexes by simp
  then have "distinct (map req_jobId (fst (batch_jobs updates index c))) \<and>
      inj_on index_of (set (map req_jobId (fst (batch_jobs updates index c))))"
    by (simp only: distinct_map)
  then show ?thesis
    by (rule conjunct1)
qed


text \<open>
  The cursor that one cycle writes is the number that the next cycle reads:
  \<^verbatim>\<open>parseInt\<close> of the decimal digits of \<open>n\<close> is \<open>n\<close>.
\<close>

lemma decimal_digit_chars:
  "list_all (\<lambda>c. \<not> is_space c \<and> c \<noteq> CHR ''-'' \<and> c \<noteq> CHR ''+'' \<and> c \<noteq> CHR ''x'' \<and>
              c \<noteq> CHR ''X'' \<and> is_digit 10 c) ''0123456789''"
  by (simp add: is_space_def is_digit_def hex_value_def)

lemma digit_char_decimal: "d < 10 \<Longrightarrow> digit_char d \<in> set ''0123456789''"
proof -
  have "list_all (\<lambda>d. digit_char d \<in> set ''0123456789'') [0, 1, 2, 3, 4, 5, 6, 7, 8, 9]"
    by (simp add: digit_char_def)
  then show "d < 10 \<Longrightarrow> digit_char d \<in> set ''0123456789''"
    using below_ten [of d] unfolding list_all_iff by blast
qed

lemma show_nat_digits: "set (show_nat n) \<subseteq> set ''0123456789''"
proof (induction n rule: show_nat.induct)
  case (1 n)
  show ?case
  proof (cases "n < 10")
    case True
    then show ?thesis
      using digit_char_decimal [of n] by (simp add: show_nat_small)
  next
    case False
    then have "set (show_nat (n div 10)) \<subseteq> set ''0123456789''"
      using 1 by simp
    then show ?thesis
      using False digit_char_decimal [of "n mod 10"] by (simp add: show_nat_large)
  qed
qed

lemma show_nat_not_empty: "show_nat n \<noteq> []"
  by (cases "n < 10") (simp_all add: show_nat_small show_nat_large)

lemma parseInt_show_nat: "parseInt (show_nat n) = Some (int n)"
proof -
  let ?s = "show_nat n"
  have all: "\<And>c. c \<in> set ?s \<Longrightarrow>
      \<not> is_space c \<and> c \<noteq> CHR ''-'' \<and> c \<noteq> CHR ''+'' \<and> c \<noteq> CHR ''x'' \<and> c \<noteq> CHR ''X'' \<and>
      is_digit 10 c"
    using decimal_digit_chars show_nat_digits [of n] unfolding list_all_iff by blast
  obtain c r where s: "?s = c # r"
    using show_nat_not_empty [of n] by (cases ?s) auto
  have c: "\<not> is_space c" "c \<noteq> CHR ''-''" "c \<noteq> CHR ''+''"
    using all [of c] s by simp_all
  have d: "dropWhile is_space ?s = ?s"
    using c s by simp
  have neg: "(case ?s of c # _ \<Rightarrow> c = CHR ''-'' | [] \<Rightarrow> False) = False"
    using s c by simp
  have s2: "(case ?s of c # r \<Rightarrow> if c = CHR ''-'' \<or> c = CHR ''+'' then r else ?s | [] \<Rightarrow> ?s) = ?s"
    using s c by simp
  have "CHR ''x'' \<notin> set (take 2 ?s)" "CHR ''X'' \<notin> set (take 2 ?s)"
    using all set_take_subset [of 2 ?s] by blast+
  then have hex: "(take 2 ?s = ''0x'' \<or> take 2 ?s = ''0X'') = False"
    by auto
  have t: "takeWhile (is_digit 10) ?s = ?s"
    using all by (simp add: takeWhile_eq_all_conv)
  have "parseInt ?s = Some (int (digits_value 10 ?s))"
    unfolding parseInt_def Let_def d neg s2 hex if_False t
    using show_nat_not_empty [of n] by simp
  then show ?thesis
    by (simp add: digits_value_show_nat)
qed

end
